theory Spec2Isabelle
  imports Complex_Main "HOL-Library.Sublist"
begin

section \<open>Strings and dictionaries of the Python source\<close>

text \<open>
  A Python \<^verbatim>\<open>str\<close> is a sequence of Unicode code points, so it is modelled as a list of
  natural numbers. ASCII literals are written through \<open>u\<close>; code points outside ASCII
  (Devanagari, Bengali, emoji) are written as numerals.
\<close>

type_synonym ustr = "nat list"

definition u :: "string \<Rightarrow> ustr" where
  "u s = map of_char s"

text \<open>\<^verbatim>\<open>word in text\<close> on strings is the contiguous-substring test, \<^const>\<open>sublist\<close>.\<close>

definition py_in :: "ustr \<Rightarrow> ustr \<Rightarrow> bool" where
  "py_in word text = sublist word text"

text \<open>\<^verbatim>\<open>any(word in text for word in words)\<close>\<close>

definition any_in :: "ustr list \<Rightarrow> ustr \<Rightarrow> bool" where
  "any_in words text = list_ex (\<lambda>word. py_in word text) words"

text \<open>
  \<^verbatim>\<open>str.strip()\<close> without argument removes leading and trailing white space; the
  white-space code points are those of CPython's \<^verbatim>\<open>str.isspace\<close>.
\<close>

definition py_isspace :: "nat \<Rightarrow> bool" where
  "py_isspace c \<longleftrightarrow>
     (0x9 \<le> c \<and> c \<le> 0xD) \<or> (0x1C \<le> c \<and> c \<le> 0x20) \<or> c = 0x85 \<or> c = 0xA0 \<or>
     c = 0x1680 \<or> (0x2000 \<le> c \<and> c \<le> 0x200A) \<or> c = 0x2028 \<or> c = 0x2029 \<or>
     c = 0x202F \<or> c = 0x205F \<or> c = 0x3000"

definition py_strip :: "ustr \<Rightarrow> ustr" where
  "py_strip s = rev (dropWhile py_isspace (rev (dropWhile py_isspace s)))"

text \<open>\<^verbatim>\<open>s.replace(' ', '+')\<close>: both strings have length one, so it is a map.\<close>

definition replace_space_plus :: "ustr \<Rightarrow> ustr" where
  "replace_space_plus s = map (\<lambda>c. if c = 0x20 then 0x2B else c) s"

text \<open>\<^verbatim>\<open>d.get(k, default)\<close> on a dictionary literal, kept as an association list.\<close>

definition dict_get :: "('k \<times> 'v) list \<Rightarrow> 'k \<Rightarrow> 'v \<Rightarrow> 'v" where
  "dict_get d k dflt = (case map_of d k of None \<Rightarrow> dflt | Some v \<Rightarrow> v)"

section \<open>Constants and safety definitions\<close>

definition SESSION_TIMEOUT :: real where
  "SESSION_TIMEOUT = 300"

definition EXIT_WORDS :: "ustr list" where
  "EXIT_WORDS =
    [u ''bye'',
     u ''no'',
     u ''thanks'',
     u ''thank you'',
     [0x928, 0x939, 0x940, 0x902],
     [0x927, 0x928, 0x94D, 0x92F, 0x935, 0x93E, 0x926],
     u ''stop'',
     u ''exit'',
     u ''band karo'']"

definition EMERGENCY_WORDS :: "ustr list" where
  "EMERGENCY_WORDS =
    [u ''unconscious'',
     u ''chest pain'',
     u ''heavy bleeding'',
     u ''heart attack'',
     u ''saans lene me dikkat'',
     [0x938, 0x93E, 0x902, 0x938] @ u '' '' @ [0x932, 0x947, 0x928, 0x947] @ u '' '' @
       [0x92E, 0x947, 0x902] @ u '' '' @ [0x926, 0x93F, 0x915, 0x94D, 0x915, 0x924],
     [0x926, 0x92E] @ u '' '' @ [0x918, 0x941, 0x91F] @ u '' '' @ [0x930, 0x939, 0x93E],
     [0x938, 0x93E, 0x901, 0x938] @ u '' '' @ [0x932, 0x947, 0x928, 0x947] @ u '' '' @
       [0x92E, 0x947, 0x902] @ u '' '' @ [0x915, 0x920, 0x93F, 0x928, 0x93E, 0x908]]"

definition SUPPORTED_LANGS :: "ustr list" where
  "SUPPORTED_LANGS =
    [u ''en'',
     u ''hi'',
     u ''mr'',
     u ''bn'']"

definition EMERGENCY_MESSAGE :: "(ustr \<times> ustr) list" where
  "EMERGENCY_MESSAGE =
    [(u ''hi'',
      [0x26A0, 0xFE0F] @ u '' **'' @ [0x924, 0x941, 0x930, 0x902, 0x924] @ u '' '' @
        [0x92E, 0x926, 0x926] @ u ''!** '' @ [0x92F, 0x939] @ u '' '' @ [0x90F, 0x915] @ u '' '' @
        [0x906, 0x92A, 0x93E, 0x924, 0x915, 0x93E, 0x932, 0x940, 0x928] @ u '' '' @
        [0x938, 0x94D, 0x925, 0x93F, 0x924, 0x93F] @ u '' '' @ [0x939, 0x94B] @ u '' '' @
        [0x938, 0x915, 0x924, 0x940] @ u '' '' @ [0x939, 0x948, 0x964] @ u '' '' @
        [0x915, 0x943, 0x92A, 0x92F, 0x93E] @ u '' '' @ [0x92C, 0x93F, 0x928, 0x93E] @ u '' '' @
        [0x926, 0x947, 0x930] @ u '' '' @ [0x915, 0x93F, 0x90F] @ u '' '' @
        [0x90F, 0x92E, 0x94D, 0x92C, 0x941, 0x932, 0x947, 0x902, 0x938] @ u '' '' @ [0x915, 0x94B] @
        u '' '' @ [0x915, 0x949, 0x932] @ u '' '' @ [0x915, 0x930, 0x947, 0x902] @ u '': **108** '' @
        [0x92F, 0x93E] @ u '' '' @ [0x928, 0x91C, 0x926, 0x940, 0x915, 0x940] @ u '' '' @
        [0x938, 0x94D, 0x935, 0x93E, 0x938, 0x94D, 0x925, 0x94D, 0x92F] @ u '' '' @
        [0x915, 0x947, 0x902, 0x926, 0x94D, 0x930] @ u '' '' @ [0x92A, 0x930] @ u '' '' @
        [0x91C, 0x93E, 0x90F, 0x902, 0x964]),
     (u ''en'',
      [0x26A0, 0xFE0F] @
        u '' **EMERGENCY!** This may be a life-threatening situation. Please call an ambulance immediately: **108** or go to the nearest health center.''),
     (u ''mr'',
      [0x26A0, 0xFE0F] @ u '' **'' @ [0x924, 0x94D, 0x935, 0x930, 0x93F, 0x924] @ u '' '' @
        [0x92E, 0x926, 0x924] @ u ''!** '' @ [0x939, 0x940] @ u '' '' @
        [0x917, 0x902, 0x92D, 0x940, 0x930] @ u '' '' @ [0x938, 0x92E, 0x938, 0x94D, 0x92F, 0x93E] @
        u '' '' @ [0x905, 0x938, 0x942] @ u '' '' @ [0x936, 0x915, 0x924, 0x947] @ u ''. '' @
        [0x915, 0x943, 0x92A, 0x92F, 0x93E] @ u '' '' @ [0x924, 0x94D, 0x935, 0x930, 0x93F, 0x924] @
        u '' '' @ [0x972, 0x92E, 0x94D, 0x92C, 0x941, 0x932, 0x928, 0x94D, 0x938, 0x932, 0x93E] @
        u '' '' @ [0x915, 0x949, 0x932] @ u '' '' @ [0x915, 0x930, 0x93E] @ u '': **108** '' @
        [0x915, 0x93F, 0x902, 0x935, 0x93E] @ u '' '' @
        [0x91C, 0x935, 0x933, 0x91A, 0x94D, 0x92F, 0x93E] @ u '' '' @
        [0x906, 0x930, 0x94B, 0x917, 0x94D, 0x92F] @ u '' '' @
        [0x915, 0x947, 0x902, 0x926, 0x94D, 0x930, 0x93E, 0x924] @ u '' '' @ [0x91C, 0x93E] @
        u ''.''),
     (u ''bn'',
      [0x26A0, 0xFE0F] @ u '' **'' @ [0x99C, 0x9B0, 0x9C1, 0x9B0, 0x9C0] @ u ''!** '' @
        [0x98F, 0x99F, 0x9BF] @ u '' '' @ [0x98F, 0x995, 0x99F, 0x9BF] @ u '' '' @
        [0x99C, 0x9C0, 0x9AC, 0x9A8] @ u ''-'' @ [0x9B9, 0x9C1, 0x9AE, 0x995, 0x9BF, 0x9B0] @
        u '' '' @ [0x9AA, 0x9B0, 0x9BF, 0x9B8, 0x9CD, 0x9A5, 0x9BF, 0x9A4, 0x9BF] @ u '' '' @
        [0x9B9, 0x9A4, 0x9C7] @ u '' '' @ [0x9AA, 0x9BE, 0x9B0, 0x9C7, 0x964] @ u '' '' @
        [0x985, 0x9AC, 0x9BF, 0x9B2, 0x9AE, 0x9CD, 0x9AC, 0x9C7] @ u '' '' @
        [0x985, 0x9CD, 0x9AF, 0x9BE, 0x9AE, 0x9CD, 0x9AC, 0x9C1, 0x9B2, 0x9C7, 0x9A8, 0x9CD, 0x9B8, 0x995, 0x9C7] @
        u '' '' @ [0x995, 0x9B2] @ u '' '' @ [0x995, 0x9B0, 0x9C1, 0x9A8] @ u '': **108** '' @
        [0x985, 0x9A5, 0x9AC, 0x9BE] @ u '' '' @ [0x9A8, 0x9BF, 0x995, 0x99F, 0x9B8, 0x9CD, 0x9A5] @
        u '' '' @
        [0x9B8, 0x9CD, 0x9AC, 0x9BE, 0x9B8, 0x9CD, 0x9A5, 0x9CD, 0x9AF, 0x995, 0x9C7, 0x9A8, 0x9CD, 0x9A6, 0x9CD, 0x9B0, 0x9C7] @
        u '' '' @ [0x9AF, 0x9BE, 0x9A8, 0x964])]"

definition localized_query :: "(ustr \<times> ustr) list" where
  "localized_query =
    [(u ''hi'',
      [0x928, 0x91C, 0x926, 0x940, 0x915, 0x940] @ u '' '' @
        [0x938, 0x94D, 0x935, 0x93E, 0x938, 0x94D, 0x925, 0x94D, 0x92F] @ u '' '' @
        [0x915, 0x947, 0x902, 0x926, 0x94D, 0x930]),
     (u ''mr'',
      [0x91C, 0x935, 0x933, 0x91A, 0x947] @ u '' '' @ [0x906, 0x930, 0x94B, 0x917, 0x94D, 0x92F] @
        u '' '' @ [0x915, 0x947, 0x902, 0x926, 0x94D, 0x930]),
     (u ''bn'',
      [0x9A8, 0x9BF, 0x995, 0x99F, 0x9B8, 0x9CD, 0x9A5] @ u '' '' @
        [0x9B8, 0x9CD, 0x9AC, 0x9BE, 0x9B8, 0x9CD, 0x9A5, 0x9CD, 0x9AF, 0x995, 0x9C7, 0x9A8, 0x9CD, 0x9A6, 0x9CD, 0x9B0]),
     (u ''en'',
      u ''health center near me'')]"

definition fallback_table :: "(ustr \<times> ustr) list" where
  "fallback_table =
    [(u ''hi'',
      [0x92E, 0x93E, 0x92B, 0x93C] @ u '' '' @ [0x915, 0x940, 0x91C, 0x93F, 0x90F] @ u '', '' @
        [0x92E, 0x948, 0x902] @ u '' '' @ [0x905, 0x92D, 0x940] @ u '' '' @
        [0x91C, 0x935, 0x93E, 0x92C] @ u '' '' @ [0x928, 0x939, 0x940, 0x902] @ u '' '' @
        [0x926, 0x947] @ u '' '' @ [0x92A, 0x93E] @ u '' '' @ [0x930, 0x939, 0x93E] @ u '' '' @
        [0x939, 0x942, 0x901, 0x964] @ u '' '' @ [0x915, 0x943, 0x92A, 0x92F, 0x93E] @ u '' '' @
        [0x92C, 0x93E, 0x926] @ u '' '' @ [0x92E, 0x947, 0x902] @ u '' '' @
        [0x92A, 0x94D, 0x930, 0x92F, 0x93E, 0x938] @ u '' '' @ [0x915, 0x930, 0x947, 0x902, 0x964]),
     (u ''mr'',
      [0x92E, 0x93E, 0x92B] @ u '' '' @ [0x915, 0x930, 0x93E] @ u '', '' @ [0x92E, 0x940] @
        u '' '' @ [0x938, 0x927, 0x94D, 0x92F, 0x93E] @ u '' '' @
        [0x909, 0x924, 0x94D, 0x924, 0x930] @ u '' '' @ [0x926, 0x947, 0x90A] @ u '' '' @
        [0x936, 0x915, 0x924] @ u '' '' @ [0x928, 0x93E, 0x939, 0x940] @ u ''. '' @
        [0x915, 0x943, 0x92A, 0x92F, 0x93E] @ u '' '' @ [0x928, 0x902, 0x924, 0x930] @ u '' '' @
        [0x92A, 0x94D, 0x930, 0x92F, 0x924, 0x94D, 0x928] @ u '' '' @ [0x915, 0x930, 0x93E] @
        u ''.''),
     (u ''bn'',
      [0x9A6, 0x9C1, 0x983, 0x996, 0x9BF, 0x9A4] @ u '', '' @ [0x986, 0x9AE, 0x9BF] @ u '' '' @
        [0x98F, 0x996, 0x9A8] @ u '' '' @ [0x989, 0x9A4, 0x9CD, 0x9A4, 0x9B0] @ u '' '' @
        [0x9A6, 0x9BF, 0x9A4, 0x9C7] @ u '' '' @ [0x9AA, 0x9BE, 0x9B0, 0x99B, 0x9BF] @ u '' '' @
        [0x9A8, 0x9BE, 0x964] @ u '' '' @ [0x9AA, 0x9B0, 0x9C7] @ u '' '' @
        [0x986, 0x9AC, 0x9BE, 0x9B0] @ u '' '' @ [0x99A, 0x9C7, 0x9B7, 0x9CD, 0x99F, 0x9BE] @
        u '' '' @ [0x995, 0x9B0, 0x9C1, 0x9A8, 0x964]),
     (u ''en'',
      u ''Sorry, I couldn'' @ [0x27] @ u ''t process that right now. Please try again later.'')]"

definition welcome_text :: "(ustr \<times> ustr) list" where
  "welcome_text =
    [(u ''hi'',
      [0x928, 0x92E, 0x938, 0x94D, 0x924, 0x947] @ u ''! '' @ [0x92E, 0x948, 0x902] @ u '' '' @
        [0x906, 0x92A, 0x915, 0x93E] @ u '' AI '' @
        [0x938, 0x94D, 0x935, 0x93E, 0x938, 0x94D, 0x925, 0x94D, 0x92F] @ u '' '' @
        [0x938, 0x939, 0x93E, 0x92F, 0x915] @ u '' '' @ [0x939, 0x942, 0x901, 0x964] @ u '' '' @
        [0x915, 0x943, 0x92A, 0x92F, 0x93E] @ u '' '' @ [0x905, 0x92A, 0x928, 0x947] @ u '' '' @
        [0x938, 0x94D, 0x935, 0x93E, 0x938, 0x94D, 0x925, 0x94D, 0x92F] @ u '' '' @
        [0x938, 0x902, 0x92C, 0x902, 0x927, 0x940] @ u '' '' @ [0x938, 0x935, 0x93E, 0x932] @
        u '' '' @ [0x92A, 0x942, 0x91B, 0x947, 0x902, 0x964]),
     (u ''en'',
      u ''Hello! I'' @ [0x27] @
        u ''m your AI Health Assistant. Please ask your health-related question.''),
     (u ''mr'',
      [0x928, 0x92E, 0x938, 0x94D, 0x915, 0x93E, 0x930] @ u ''! '' @ [0x92E, 0x940] @ u '' '' @
        [0x924, 0x941, 0x92E, 0x91A, 0x93E] @ u '' '' @ [0x906, 0x930, 0x94B, 0x917, 0x94D, 0x92F] @
        u '' '' @ [0x938, 0x939, 0x93E, 0x92F, 0x94D, 0x92F, 0x915] @ u '' '' @
        [0x906, 0x939, 0x947] @ u ''. '' @ [0x915, 0x943, 0x92A, 0x92F, 0x93E] @ u '' '' @
        [0x924, 0x941, 0x92E, 0x91A, 0x93E] @ u '' '' @ [0x906, 0x930, 0x94B, 0x917, 0x94D, 0x92F] @
        u '' '' @ [0x938, 0x902, 0x92C, 0x902, 0x927, 0x93F, 0x924] @ u '' '' @
        [0x92A, 0x94D, 0x930, 0x936, 0x94D, 0x928] @ u '' '' @
        [0x935, 0x93F, 0x91A, 0x93E, 0x930, 0x93E] @ u ''.''),
     (u ''bn'',
      [0x9B9, 0x9CD, 0x9AF, 0x9BE, 0x9B2, 0x9CB] @ u ''! '' @ [0x986, 0x9AE, 0x9BF] @ u '' '' @
        [0x986, 0x9AA, 0x9A8, 0x9BE, 0x9B0] @ u '' '' @ [0x98F, 0x986, 0x987] @ u '' '' @
        [0x9B8, 0x9CD, 0x9AC, 0x9BE, 0x9B8, 0x9CD, 0x9A5, 0x9CD, 0x9AF] @ u '' '' @
        [0x9B8, 0x9B9, 0x995, 0x9BE, 0x9B0, 0x9C0, 0x964] @ u '' '' @
        [0x986, 0x9AA, 0x9A8, 0x9BE, 0x9B0] @ u '' '' @
        [0x9B8, 0x9CD, 0x9AC, 0x9BE, 0x9B8, 0x9CD, 0x9A5, 0x9CD, 0x9AF] @ u '' '' @
        [0x9B8, 0x982, 0x995, 0x9CD, 0x9B0, 0x9BE, 0x9A8, 0x9CD, 0x9A4] @ u '' '' @
        [0x9AA, 0x9CD, 0x9B0, 0x9B6, 0x9CD, 0x9A8] @ u '' '' @
        [0x99C, 0x9BF, 0x99C, 0x9CD, 0x99E, 0x9BE, 0x9B8, 0x9BE] @ u '' '' @
        [0x995, 0x9B0, 0x9C1, 0x9A8, 0x964])]"

section \<open>Environment, sessions and the mutable world\<close>

text \<open>
  Exceptions are values. The retry decorator of \<^verbatim>\<open>ask_llm\<close> distinguishes
  \<^verbatim>\<open>APIError\<close> and \<^verbatim>\<open>RequestException\<close> from every other exception.
\<close>

datatype exn = APIError | RequestException | KeyError | OtherException

text \<open>
  One call of \<^verbatim>\<open>gemini_client.models.generate_content\<close> either raises or returns a
  response whose \<^verbatim>\<open>text\<close> is a string or \<^verbatim>\<open>None\<close>.
\<close>

datatype gen_outcome = GenRaise exn | GenText "ustr option"

text \<open>
  Everything outside the repository is a field of the environment, so that the theorems
  hold for every behaviour of it: the clock (the \<open>n\<close>-th reading of \<^verbatim>\<open>time.time()\<close>),
  the language detector (\<open>None\<close> when \<^verbatim>\<open>detect\<close> raises), \<^verbatim>\<open>str.lower\<close>, the
  \<open>n\<close>-th call of \<^verbatim>\<open>generate_content\<close>, and the media download (what
  \<^verbatim>\<open>requests.get\<close>, \<^verbatim>\<open>raise_for_status\<close> and \<^verbatim>\<open>.content\<close> give for a media URL).
  The SDK constructors \<^verbatim>\<open>types.Content\<close> and \<^verbatim>\<open>types.Part\<close> are taken as total.
\<close>

record env =
  gemini_client_set :: bool
  twilio_client_set :: bool
  time_time :: "nat \<Rightarrow> real"
  detect :: "ustr \<Rightarrow> ustr option"
  str_lower :: "ustr \<Rightarrow> ustr"
  generate_content :: "nat \<Rightarrow> gen_outcome"
  requests_get :: "ustr \<Rightarrow> exn + nat list"

datatype role = User | Model

type_synonym content = "role \<times> ustr"

text \<open>The session dictionary with its four keys.\<close>

record session =
  lang :: "ustr option"
  msg_count :: int
  last_seen :: real
  history :: "content list"

datatype log_level = INFO | ERROR | CRITICAL

text \<open>
  The mutable state: the global \<^verbatim>\<open>user_sessions\<close>, and what the program does to the
  outside (clock readings taken, calls of \<^verbatim>\<open>generate_content\<close> made, log records
  written, the waits of the retry decorator before jitter).
\<close>

record world =
  user_sessions :: "ustr \<rightharpoonup> session"
  clock_reads :: nat
  gemini_calls :: nat
  logged :: "log_level list"
  sleeps :: "nat list"

section \<open>Core utilities\<close>

definition detect_language :: "env \<Rightarrow> ustr \<Rightarrow> ustr" where
  "detect_language e text =
     (case detect e text of
        None \<Rightarrow> u ''en''
      | Some l \<Rightarrow> if l \<in> set SUPPORTED_LANGS then l else u ''en'')"

definition generate_maps_link :: "ustr \<Rightarrow> ustr" where
  "generate_maps_link l =
     u ''https://www.google.com/maps/search/?api=1&query='' @
     replace_space_plus (dict_get localized_query l (u ''health center near me''))"

definition fallback_message :: "ustr \<Rightarrow> ustr" where
  "fallback_message l = dict_get fallback_table l (u ''Sorry, please try again later.'')"

definition fresh_session :: "real \<Rightarrow> session" where
  "fresh_session now = \<lparr>lang = None, msg_count = 0, last_seen = now, history = []\<rparr>"

text \<open>
  \<^verbatim>\<open>get_user_state\<close>. A stored session is a dictionary with four keys, hence truthy.
  The test reads the clock once (not at all when no session is stored, as \<^verbatim>\<open>and\<close>
  short-circuits), and the refreshed or fresh time stamp is a further reading. The refresh
  writes through the stored dictionary, so the store changes with it; a fresh session is
  returned without being stored.
\<close>

definition get_user_state :: "env \<Rightarrow> ustr \<Rightarrow> world \<Rightarrow> session \<times> world" where
  "get_user_state e user_id w =
     (case user_sessions w user_id of
        None \<Rightarrow>
          (fresh_session (time_time e (clock_reads w)),
           w\<lparr>clock_reads := clock_reads w + 1\<rparr>)
      | Some state \<Rightarrow>
          if time_time e (clock_reads w) - last_seen state \<le> SESSION_TIMEOUT then
            (let state' = state\<lparr>last_seen := time_time e (clock_reads w + 1)\<rparr>
             in (state', w\<lparr>user_sessions := (user_sessions w)(user_id \<mapsto> state'),
                          clock_reads := clock_reads w + 2\<rparr>))
          else
            (fresh_session (time_time e (clock_reads w + 1)),
             w\<lparr>clock_reads := clock_reads w + 2\<rparr>))"

section \<open>Voice and model calls\<close>

definition download_media_as_bytes :: "env \<Rightarrow> ustr \<Rightarrow> exn + nat list" where
  "download_media_as_bytes e media_url =
     (if \<not> twilio_client_set e then Inl OtherException else requests_get e media_url)"

definition transcribe_audio_gemini :: "env \<Rightarrow> ustr \<Rightarrow> world \<Rightarrow> (exn + ustr) \<times> world" where
  "transcribe_audio_gemini e media_url w =
     (if \<not> gemini_client_set e then (Inl OtherException, w)
      else case download_media_as_bytes e media_url of
        Inl x \<Rightarrow> (Inl x, w)
      | Inr audio_bytes \<Rightarrow>
          (let w' = w\<lparr>gemini_calls := gemini_calls w + 1\<rparr>
           in case generate_content e (gemini_calls w) of
                GenRaise x \<Rightarrow> (Inl x, w')
              | GenText None \<Rightarrow> (Inl OtherException, w')
              | GenText (Some t) \<Rightarrow> (Inr (py_strip t), w')))"

text \<open>
  The body of \<^verbatim>\<open>ask_llm\<close>, one attempt. The user turn is appended to the stored
  history before the \<^verbatim>\<open>try\<close>; \<^verbatim>\<open>APIError\<close> is logged and raised again, any other
  exception (also the one raised for an empty reply, and \<^verbatim>\<open>None.strip()\<close>) is logged
  and turned into the fallback message.
\<close>

definition ask_llm_body :: "env \<Rightarrow> ustr \<Rightarrow> ustr \<Rightarrow> ustr \<Rightarrow> world \<Rightarrow> (exn + ustr) \<times> world" where
  "ask_llm_body e user_id question l w =
     (if \<not> gemini_client_set e then (Inr (fallback_message l), w)
      else case user_sessions w user_id of
        None \<Rightarrow> (Inl KeyError, w)
      | Some state \<Rightarrow>
          (let state1 = state\<lparr>history := history state @ [(User, question)]\<rparr>;
               w1 = w\<lparr>user_sessions := (user_sessions w)(user_id \<mapsto> state1),
                      gemini_calls := gemini_calls w + 1\<rparr>
           in case generate_content e (gemini_calls w) of
                GenRaise APIError \<Rightarrow> (Inl APIError, w1\<lparr>logged := logged w1 @ [ERROR]\<rparr>)
              | GenRaise _ \<Rightarrow> (Inr (fallback_message l), w1\<lparr>logged := logged w1 @ [ERROR]\<rparr>)
              | GenText None \<Rightarrow> (Inr (fallback_message l), w1\<lparr>logged := logged w1 @ [ERROR]\<rparr>)
              | GenText (Some t) \<Rightarrow>
                  (let reply = py_strip t
                   in if reply = [] then
                        (Inr (fallback_message l), w1\<lparr>logged := logged w1 @ [ERROR]\<rparr>)
                      else
                        (Inr reply,
                         w1\<lparr>user_sessions := (user_sessions w1)
                              (user_id \<mapsto> state1\<lparr>history := history state1 @ [(Model, reply)]\<rparr>)\<rparr>))))"

text \<open>
  \<^verbatim>\<open>backoff.on_exception(backoff.expo, (APIError, RequestException), max_tries=3, factor=1)\<close>:
  the target is called again after an exception of the two listed classes, with a wait of
  (before jitter) \<open>factor * 2 ^ n\<close> seconds after the \<open>n\<close>-th failure counted from zero;
  the exception of the last permitted try, and any exception of another class, escapes.
  The first argument is the number of tries left after the current one.
\<close>

fun on_exception :: "nat \<Rightarrow> nat \<Rightarrow> (world \<Rightarrow> (exn + 'a) \<times> world) \<Rightarrow> world \<Rightarrow> (exn + 'a) \<times> world" where
  "on_exception 0 n target w = target w"
| "on_exception (Suc left) n target w =
     (case target w of
        (Inr ret, w') \<Rightarrow> (Inr ret, w')
      | (Inl x, w') \<Rightarrow>
          if x = APIError \<or> x = RequestException
          then on_exception left (Suc n) target (w'\<lparr>sleeps := sleeps w' @ [1 * 2 ^ n]\<rparr>)
          else (Inl x, w'))"

definition max_tries :: nat where
  "max_tries = 3"

definition ask_llm :: "env \<Rightarrow> ustr \<Rightarrow> ustr \<Rightarrow> ustr \<Rightarrow> world \<Rightarrow> (exn + ustr) \<times> world" where
  "ask_llm e user_id question l = on_exception (max_tries - 1) 0 (ask_llm_body e user_id question l)"

section \<open>Conversation flow manager\<close>

definition exit_reply :: ustr where
  "exit_reply = u ''Conversation ended. You can send a new message to start again.''"

definition welcome_default :: ustr where
  "welcome_default =
     u ''Hello! I'' @ [0x27] @ u ''m your AI Health Assistant. Please ask your health-related question.''"

definition welcome_banner :: "ustr \<Rightarrow> ustr" where
  "welcome_banner l =
     u ''*'' @ dict_get welcome_text l welcome_default @ u ''*'' @ [0xA, 0xA] @ u ''---'' @ [0xA]"

definition referral_block :: "ustr \<Rightarrow> ustr" where
  "referral_block l =
     [0xA, 0xA] @ u ''---'' @ [0xA, 0x1F5FA, 0xFE0F] @ u '' **'' @
     [0x928, 0x91C, 0x926, 0x940, 0x915, 0x940] @ u '' '' @
     [0x938, 0x94D, 0x935, 0x93E, 0x938, 0x94D, 0x925, 0x94D, 0x92F] @ u '' '' @
     [0x915, 0x947, 0x902, 0x926, 0x94D, 0x930] @ u '' / Nearby Health Center:** ['' @
     [0x928, 0x915, 0x94D, 0x936, 0x93E] @ u '' / Map Link]('' @ generate_maps_link l @ u '')''"

text \<open>
  The first lines of \<^verbatim>\<open>build_conversation_response\<close>, up to the commit of the
  session: the session is fetched or created, the first-message flag is taken before the
  counter is incremented, the language is detected only when the session has none, and
  the session is stored. The result is the flag, the language and the world.
\<close>

definition resolve_session :: "env \<Rightarrow> ustr \<Rightarrow> ustr \<Rightarrow> world \<Rightarrow> bool \<times> ustr \<times> world" where
  "resolve_session e user_id incoming_msg_raw w =
     (case get_user_state e user_id w of (state, w1) \<Rightarrow>
       (let is_first_message = (msg_count state = 0);
            state1 = state\<lparr>msg_count := msg_count state + 1\<rparr>;
            l = (case lang state1 of
                   None \<Rightarrow> detect_language e incoming_msg_raw
                 | Some l0 \<Rightarrow> l0);
            state2 = state1\<lparr>lang := Some l\<rparr>
        in (is_first_message, l, w1\<lparr>user_sessions := (user_sessions w1)(user_id \<mapsto> state2)\<rparr>)))"

text \<open>
  \<^verbatim>\<open>build_conversation_response\<close>, from the normalisation of the text on.
  \<^verbatim>\<open>EMERGENCY_MESSAGE["en"]\<close> is a subscript and would raise \<^verbatim>\<open>KeyError\<close> on a
  missing key; everything raised inside the final \<^verbatim>\<open>try\<close> is caught there.
\<close>

definition build_conversation_response ::
    "env \<Rightarrow> ustr \<Rightarrow> ustr \<Rightarrow> bool \<Rightarrow> world \<Rightarrow> (exn + ustr) \<times> world" where
  "build_conversation_response e user_id incoming_msg_raw is_audio w =
     (case resolve_session e user_id incoming_msg_raw w of (is_first_message, l, w2) \<Rightarrow>
       (let incoming_msg_normalized = py_strip (str_lower e incoming_msg_raw)
        in if any_in EXIT_WORDS incoming_msg_normalized then
             (Inr exit_reply, w2\<lparr>user_sessions := (user_sessions w2)(user_id := None)\<rparr>)
           else if any_in EMERGENCY_WORDS incoming_msg_normalized then
             (let w3 = w2\<lparr>logged := logged w2 @ [CRITICAL]\<rparr>;
                  w4 = w3\<lparr>user_sessions := (user_sessions w3)(user_id := None)\<rparr>
              in case map_of EMERGENCY_MESSAGE (u ''en'') of
                   None \<Rightarrow> (Inl KeyError, w4)
                 | Some en \<Rightarrow> (Inr (dict_get EMERGENCY_MESSAGE l en), w4))
           else
             (let final_response =
                    (if is_first_message \<and> \<not> is_audio then welcome_banner l else [])
              in case ask_llm e user_id incoming_msg_raw l w2 of
                   (Inr llm_reply, w3) \<Rightarrow> (Inr (final_response @ llm_reply @ referral_block l), w3)
                 | (Inl x, w3) \<Rightarrow> (Inr (fallback_message l), w3))))"

section \<open>The webhook\<close>

text \<open>
  The form fields of a request: \<^verbatim>\<open>From\<close> and \<^verbatim>\<open>Body\<close> (empty when missing),
  \<^verbatim>\<open>MediaUrl0\<close> (\<open>None\<close> when missing) and the value of \<^verbatim>\<open>int(NumMedia)\<close>. The
  result is the text put into the reply message.
\<close>

record request =
  from_number :: ustr
  incoming_msg_body :: ustr
  media_url :: "ustr option"
  num_media :: int

definition empty_notice :: ustr where
  "empty_notice =
     u ''Sorry, I received an empty message. Please try again or type your question.''"

definition process_text :: "env \<Rightarrow> ustr \<Rightarrow> ustr \<Rightarrow> bool \<Rightarrow> world \<Rightarrow> (exn + ustr) \<times> world" where
  "process_text e from_no body is_audio w =
     (if py_strip body = [] then (Inr empty_notice, w)
      else build_conversation_response e from_no body is_audio w)"

definition whatsapp_webhook :: "env \<Rightarrow> request \<Rightarrow> world \<Rightarrow> (exn + ustr) \<times> world" where
  "whatsapp_webhook e req w =
     (let w0 = w\<lparr>logged := logged w @ [INFO]\<rparr>
      in case media_url req of
           Some url \<Rightarrow>
             if num_media req > 0 \<and> url \<noteq> [] then
               (case get_user_state e (from_number req) w0 of (user_state, w1) \<Rightarrow>
                 (case transcribe_audio_gemini e url w1 of
                    (Inl x, w2) \<Rightarrow>
                      (Inr (case lang user_state of
                              None \<Rightarrow> u ''Sorry, please try again later.''
                            | Some user_lang \<Rightarrow> fallback_message user_lang),
                       w2\<lparr>logged := logged w2 @ [ERROR]\<rparr>)
                  | (Inr text, w2) \<Rightarrow>
                      (let w3 = w2\<lparr>logged := logged w2 @ [INFO]\<rparr>;
                           w4 = (case lang user_state of
                                   None \<Rightarrow>
                                     w3\<lparr>user_sessions := (user_sessions w3)
                                          (from_number req \<mapsto>
                                             user_state\<lparr>lang := Some (detect_language e text)\<rparr>)\<rparr>
                                 | Some _ \<Rightarrow> w3)
                       in process_text e (from_number req) text True w4)))
             else process_text e (from_number req) (incoming_msg_body req) False w0
         | None \<Rightarrow> process_text e (from_number req) (incoming_msg_body req) False w0)"

section \<open>Concrete environments and worlds\<close>

text \<open>
  On ASCII text \<^verbatim>\<open>str.lower\<close> maps \<open>A\<close> to \<open>Z\<close> onto \<open>a\<close> to \<open>z\<close> and
  leaves the rest. The sample environment has both clients configured, a clock that
  advances by one second per reading from 1000, a detector with a fixed answer, and a
  given behaviour of \<^verbatim>\<open>generate_content\<close>.
\<close>

definition ascii_lower :: "ustr \<Rightarrow> ustr" where
  "ascii_lower s = map (\<lambda>c. if 0x41 \<le> c \<and> c \<le> 0x5A then c + 0x20 else c) s"

definition sample_env :: "ustr option \<Rightarrow> (nat \<Rightarrow> gen_outcome) \<Rightarrow> env" where
  "sample_env d gen =
     \<lparr>gemini_client_set = True, twilio_client_set = True,
      time_time = (\<lambda>n. 1000 + real n), detect = (\<lambda>_. d), str_lower = ascii_lower,
      generate_content = gen, requests_get = (\<lambda>_. Inr [])\<rparr>"

definition always_api_error :: "nat \<Rightarrow> gen_outcome" where
  "always_api_error n = GenRaise APIError"

definition always_text :: "ustr \<Rightarrow> nat \<Rightarrow> gen_outcome" where
  "always_text t n = GenText (Some t)"

definition fail_then_text :: "nat \<Rightarrow> ustr \<Rightarrow> nat \<Rightarrow> gen_outcome" where
  "fail_then_text k t n = (if n < k then GenRaise APIError else GenText (Some t))"

definition empty_world :: world where
  "empty_world =
     \<lparr>user_sessions = Map.empty, clock_reads = 0, gemini_calls = 0, logged = [], sleeps = []\<rparr>"

definition sample_session :: "ustr \<Rightarrow> real \<Rightarrow> session" where
  "sample_session l t = \<lparr>lang = Some l, msg_count = 1, last_seen = t, history = []\<rparr>"

definition one_session_world :: "ustr \<Rightarrow> session \<Rightarrow> world" where
  "one_session_world user_id s = empty_world\<lparr>user_sessions := [user_id \<mapsto> s]\<rparr>"

section \<open>Map link and language detection\<close>

lemma supported_cases:
  "c \<in> set SUPPORTED_LANGS \<longleftrightarrow> c = u ''en'' \<or> c = u ''hi'' \<or> c = u ''mr'' \<or> c = u ''bn''"
  by (auto simp: SUPPORTED_LANGS_def)

lemma maps_link_supported:
  "c \<in> set SUPPORTED_LANGS \<Longrightarrow>
     \<exists>q. map_of localized_query c = Some q \<and>
         generate_maps_link c = u ''https://www.google.com/maps/search/?api=1&query='' @ replace_space_plus q \<and>
         0x20 \<notin> set (replace_space_plus q)"
  unfolding supported_cases
  by (elim disjE; simp add: generate_maps_link_def dict_get_def localized_query_def u_def replace_space_plus_def)

lemma maps_link_unrecognized:
  "l \<notin> set SUPPORTED_LANGS \<Longrightarrow>
     generate_maps_link l = u ''https://www.google.com/maps/search/?api=1&query=health+center+near+me''"
  by (simp add: generate_maps_link_def dict_get_def localized_query_def u_def replace_space_plus_def SUPPORTED_LANGS_def)

lemma detect_language_supported: "detect_language e text \<in> set SUPPORTED_LANGS"
  by (simp add: detect_language_def SUPPORTED_LANGS_def split: option.splits)

text \<open>
  Claim C9. When the detector answers a supported code, \<^verbatim>\<open>generate_maps_link\<close> of the
  detected language is the fixed search URL followed by the query listed for that code
  with every space replaced by \<open>+\<close>; for English it is the URL ending in
  \<open>health+center+near+me\<close>; a code outside the supported ones gives the English URL.
\<close>

theorem maps_link_of_detected_language:
  "(c \<in> set SUPPORTED_LANGS \<longrightarrow> detect e text = Some c \<longrightarrow>
      (\<exists>q. map_of localized_query c = Some q \<and>
           generate_maps_link (detect_language e text) =
             u ''https://www.google.com/maps/search/?api=1&query='' @ replace_space_plus q \<and>
           0x20 \<notin> set (replace_space_plus q))) \<and>
   (detect e text = Some (u ''en'') \<longrightarrow>
      generate_maps_link (detect_language e text) =
        u ''https://www.google.com/maps/search/?api=1&query=health+center+near+me'') \<and>
   (l \<notin> set SUPPORTED_LANGS \<longrightarrow>
      generate_maps_link l =
        u ''https://www.google.com/maps/search/?api=1&query=health+center+near+me'')"
proof (intro conjI impI)
  assume c: "c \<in> set SUPPORTED_LANGS" and d: "detect e text = Some c"
  then have "detect_language e text = c" by (simp add: detect_language_def)
  with maps_link_supported [OF c]
  show "\<exists>q. map_of localized_query c = Some q \<and>
           generate_maps_link (detect_language e text) =
             u ''https://www.google.com/maps/search/?api=1&query='' @ replace_space_plus q \<and>
           0x20 \<notin> set (replace_space_plus q)" by simp
next
  assume "detect e text = Some (u ''en'')"
  then have "detect_language e text = u ''en''" by (simp add: detect_language_def SUPPORTED_LANGS_def)
  then show "generate_maps_link (detect_language e text) =
        u ''https://www.google.com/maps/search/?api=1&query=health+center+near+me''"
    by (simp add: generate_maps_link_def dict_get_def localized_query_def u_def replace_space_plus_def)
next
  assume "l \<notin> set SUPPORTED_LANGS"
  then show "generate_maps_link l =
        u ''https://www.google.com/maps/search/?api=1&query=health+center+near+me''"
    by (rule maps_link_unrecognized)
qed

theorem maps_link_of_detected_language_witness:
  "u ''hi'' \<in> set SUPPORTED_LANGS \<and> detect (sample_env (Some (u ''hi'')) always_api_error) (u ''x'') = Some (u ''hi'') \<and>
   generate_maps_link (detect_language (sample_env (Some (u ''hi'')) always_api_error) (u ''x'')) =
     u ''https://www.google.com/maps/search/?api=1&query='' @
     [0x928, 0x91C, 0x926, 0x940, 0x915, 0x940, 0x2B, 0x938, 0x94D, 0x935, 0x93E, 0x938, 0x94D, 0x925, 0x94D, 0x92F, 0x2B,
      0x915, 0x947, 0x902, 0x926, 0x94D, 0x930] \<and>
   u ''fr'' \<notin> set SUPPORTED_LANGS \<and>
   generate_maps_link (u ''fr'') = u ''https://www.google.com/maps/search/?api=1&query=health+center+near+me''"
  using maps_link_of_detected_language [of "u ''hi''" "sample_env (Some (u ''hi'')) always_api_error" "u ''x''" "u ''fr''"]
  by (simp add: SUPPORTED_LANGS_def sample_env_def u_def localized_query_def replace_space_plus_def)

section \<open>The webhook on an empty message\<close>

text \<open>
  Claim C7. A request whose body is empty or white space only and that carries no media is
  answered with the empty-message notice; \<^verbatim>\<open>build_conversation_response\<close> is not run,
  and the world changes by the one \<^verbatim>\<open>INFO\<close> record of the handler only, so no session is
  created, read or changed.
\<close>

theorem empty_message_leaves_sessions:
  assumes "py_strip (incoming_msg_body req) = []" and "num_media req = 0"
  shows "whatsapp_webhook e req w = (Inr empty_notice, w\<lparr>logged := logged w @ [INFO]\<rparr>)"
  using assms by (simp add: whatsapp_webhook_def process_text_def Let_def split: option.splits)

theorem empty_message_leaves_sessions_witness:
  "py_strip (incoming_msg_body \<lparr>from_number = u ''+911'', incoming_msg_body = u ''   '', media_url = None, num_media = 0\<rparr>) = [] \<and>
   whatsapp_webhook (sample_env None always_api_error)
      \<lparr>from_number = u ''+911'', incoming_msg_body = u ''   '', media_url = None, num_media = 0\<rparr>
      (one_session_world (u ''+911'') (sample_session (u ''hi'') 900)) =
     (Inr empty_notice, (one_session_world (u ''+911'') (sample_session (u ''hi'') 900))\<lparr>logged := [INFO]\<rparr>)"
  using empty_message_leaves_sessions [of "\<lparr>from_number = u ''+911'', incoming_msg_body = u ''   '', media_url = None, num_media = 0\<rparr>"
      "sample_env None always_api_error" "one_session_world (u ''+911'') (sample_session (u ''hi'') 900)"]
  by (simp add: py_strip_def py_isspace_def u_def one_session_world_def empty_world_def)

section \<open>Session lookup\<close>

text \<open>
  Claim C4. When a session is stored for the user id and the clock reading minus its
  \<^verbatim>\<open>last_seen\<close> is at most \<^verbatim>\<open>SESSION_TIMEOUT\<close> (300 seconds),
  \<^verbatim>\<open>get_user_state\<close> returns that session with \<^verbatim>\<open>last_seen\<close> set to the next clock
  reading, and the stored session is refreshed with it. In every other case (no session,
  or an expired one) it returns a new session with no language, message count 0 and an
  empty history, and the world changes in its count of clock readings only: the new
  session is not stored, and an expired session is treated as an absent one.
\<close>

theorem get_user_state_live_or_fresh:
  "(user_sessions w user_id = Some s \<and>
      time_time e (clock_reads w) - last_seen s \<le> SESSION_TIMEOUT \<longrightarrow>
      get_user_state e user_id w =
        (s\<lparr>last_seen := time_time e (clock_reads w + 1)\<rparr>,
         w\<lparr>user_sessions := (user_sessions w)
              (user_id \<mapsto> s\<lparr>last_seen := time_time e (clock_reads w + 1)\<rparr>),
           clock_reads := clock_reads w + 2\<rparr>)) \<and>
   (\<not> (\<exists>s'. user_sessions w user_id = Some s' \<and>
           time_time e (clock_reads w) - last_seen s' \<le> SESSION_TIMEOUT) \<longrightarrow>
      (\<exists>n. clock_reads w < n \<and>
           get_user_state e user_id w =
             (\<lparr>lang = None, msg_count = 0, last_seen = time_time e (n - 1), history = []\<rparr>,
              w\<lparr>clock_reads := n\<rparr>)))"
proof (intro conjI impI)
  assume "user_sessions w user_id = Some s \<and>
      time_time e (clock_reads w) - last_seen s \<le> SESSION_TIMEOUT"
  then show "get_user_state e user_id w =
        (s\<lparr>last_seen := time_time e (clock_reads w + 1)\<rparr>,
         w\<lparr>user_sessions := (user_sessions w)
              (user_id \<mapsto> s\<lparr>last_seen := time_time e (clock_reads w + 1)\<rparr>),
           clock_reads := clock_reads w + 2\<rparr>)"
    by (simp add: get_user_state_def Let_def)
next
  assume dead: "\<not> (\<exists>s'. user_sessions w user_id = Some s' \<and>
           time_time e (clock_reads w) - last_seen s' \<le> SESSION_TIMEOUT)"
  show "\<exists>n. clock_reads w < n \<and>
           get_user_state e user_id w =
             (\<lparr>lang = None, msg_count = 0, last_seen = time_time e (n - 1), history = []\<rparr>,
              w\<lparr>clock_reads := n\<rparr>)"
  proof (cases "user_sessions w user_id")
    case None
    then have "get_user_state e user_id w =
        (\<lparr>lang = None, msg_count = 0, last_seen = time_time e (clock_reads w + 1 - 1), history = []\<rparr>,
         w\<lparr>clock_reads := clock_reads w + 1\<rparr>)"
      by (simp add: get_user_state_def fresh_session_def)
    then show ?thesis by (intro exI [of _ "clock_reads w + 1"]) simp
  next
    case (Some s')
    with dead have "\<not> time_time e (clock_reads w) - last_seen s' \<le> SESSION_TIMEOUT" by simp
    with Some have "get_user_state e user_id w =
        (\<lparr>lang = None, msg_count = 0, last_seen = time_time e (clock_reads w + 2 - 1), history = []\<rparr>,
         w\<lparr>clock_reads := clock_reads w + 2\<rparr>)"
      by (simp add: get_user_state_def fresh_session_def)
    then show ?thesis by (intro exI [of _ "clock_reads w + 2"]) simp
  qed
qed

theorem get_user_state_live_or_fresh_witness:
  "user_sessions (one_session_world (u ''a'') (sample_session (u ''hi'') 700)) (u ''a'') =
     Some (sample_session (u ''hi'') 700) \<and>
   time_time (sample_env None always_api_error)
       (clock_reads (one_session_world (u ''a'') (sample_session (u ''hi'') 700)))
      - last_seen (sample_session (u ''hi'') 700) \<le> SESSION_TIMEOUT \<and>
   get_user_state (sample_env None always_api_error) (u ''a'')
          (one_session_world (u ''a'') (sample_session (u ''hi'') 700)) =
     (\<lparr>lang = Some (u ''hi''), msg_count = 1, last_seen = 1001, history = []\<rparr>,
      (one_session_world (u ''a'')
         \<lparr>lang = Some (u ''hi''), msg_count = 1, last_seen = 1001, history = []\<rparr>)
       \<lparr>clock_reads := 2\<rparr>) \<and>
   \<not> (\<exists>s'. user_sessions (one_session_world (u ''a'') (sample_session (u ''hi'') 699)) (u ''a'') =
            Some s' \<and>
       time_time (sample_env None always_api_error)
           (clock_reads (one_session_world (u ''a'') (sample_session (u ''hi'') 699)))
         - last_seen s' \<le> SESSION_TIMEOUT) \<and>
   (\<exists>n. get_user_state (sample_env None always_api_error) (u ''a'')
           (one_session_world (u ''a'') (sample_session (u ''hi'') 699)) =
       (\<lparr>lang = None, msg_count = 0,
          last_seen = time_time (sample_env None always_api_error) (n - 1), history = []\<rparr>,
        (one_session_world (u ''a'') (sample_session (u ''hi'') 699))\<lparr>clock_reads := n\<rparr>))"
  using get_user_state_live_or_fresh [of "one_session_world (u ''a'') (sample_session (u ''hi'') 700)"
          "u ''a''" "sample_session (u ''hi'') 700" "sample_env None always_api_error"]
        get_user_state_live_or_fresh [of "one_session_world (u ''a'') (sample_session (u ''hi'') 699)"
          "u ''a''" _ "sample_env None always_api_error"]
  by (simp add: one_session_world_def empty_world_def sample_session_def sample_env_def
        SESSION_TIMEOUT_def) blast

section \<open>The model call and its retries\<close>

text \<open>
  One attempt of \<^verbatim>\<open>ask_llm\<close> has three outcomes: the provider error is raised again,
  a non-empty reply is returned and recorded, anything else gives the fallback message.
  In each of them the user turn has been appended to the stored history.
\<close>

lemma ask_llm_body_api_error:
  assumes "gemini_client_set e" and "user_sessions w uid = Some s"
    and "generate_content e (gemini_calls w) = GenRaise APIError"
  shows "ask_llm_body e uid q l w =
    (Inl APIError,
     w\<lparr>user_sessions := (user_sessions w)(uid \<mapsto> s\<lparr>history := history s @ [(User, q)]\<rparr>),
       gemini_calls := gemini_calls w + 1, logged := logged w @ [ERROR]\<rparr>)"
  using assms by (simp add: ask_llm_body_def Let_def)

lemma ask_llm_body_reply:
  assumes "gemini_client_set e" and "user_sessions w uid = Some s"
    and "generate_content e (gemini_calls w) = GenText (Some t)" and "py_strip t \<noteq> []"
  shows "ask_llm_body e uid q l w =
    (Inr (py_strip t),
     w\<lparr>user_sessions := (user_sessions w)
          (uid \<mapsto> s\<lparr>history := history s @ [(User, q), (Model, py_strip t)]\<rparr>),
       gemini_calls := gemini_calls w + 1\<rparr>)"
  using assms by (simp add: ask_llm_body_def Let_def)

lemma ask_llm_body_fallback:
  assumes "gemini_client_set e" and "user_sessions w uid = Some s"
    and "(\<exists>x. generate_content e (gemini_calls w) = GenRaise x \<and> x \<noteq> APIError) \<or>
         generate_content e (gemini_calls w) = GenText None \<or>
         (\<exists>t. generate_content e (gemini_calls w) = GenText (Some t) \<and> py_strip t = [])"
  shows "ask_llm_body e uid q l w =
    (Inr (fallback_message l),
     w\<lparr>user_sessions := (user_sessions w)(uid \<mapsto> s\<lparr>history := history s @ [(User, q)]\<rparr>),
       gemini_calls := gemini_calls w + 1, logged := logged w @ [ERROR]\<rparr>)"
  using assms by (auto simp: ask_llm_body_def Let_def split: exn.splits)

lemma on_exception_Inr:
  "target w = (Inr r, w') \<Longrightarrow> on_exception left n target w = (Inr r, w')"
  by (cases left) simp_all

lemma on_exception_not_retried:
  "target w = (Inl x, w') \<Longrightarrow> x \<noteq> APIError \<Longrightarrow> x \<noteq> RequestException \<Longrightarrow>
   on_exception left n target w = (Inl x, w')"
  by (cases left) simp_all

lemma ask_llm_failures:
  assumes conf: "gemini_client_set e"
  shows "user_sessions w uid = Some s \<Longrightarrow> k \<le> left \<Longrightarrow>
     (\<forall>i<k. generate_content e (gemini_calls w + i) = GenRaise APIError) \<Longrightarrow>
     on_exception left n (ask_llm_body e uid q l) w =
     on_exception (left - k) (n + k) (ask_llm_body e uid q l)
       (w\<lparr>user_sessions := (user_sessions w)
            (uid \<mapsto> s\<lparr>history := history s @ replicate k (User, q)\<rparr>),
         gemini_calls := gemini_calls w + k,
         logged := logged w @ replicate k ERROR,
         sleeps := sleeps w @ map (\<lambda>i. 2 ^ (n + i)) [0..<k]\<rparr>)"
proof (induction k arbitrary: w s left n)
  case 0
  then have "(user_sessions w)(uid \<mapsto> s) = user_sessions w"
    by (simp add: map_upd_triv)
  then show ?case by simp
next
  case (Suc k)
  then obtain left' where left: "left = Suc left'" and k: "k \<le> left'"
    by (cases left) auto
  let ?s1 = "s\<lparr>history := history s @ [(User, q)]\<rparr>"
  let ?w1 = "w\<lparr>user_sessions := (user_sessions w)(uid \<mapsto> ?s1),
       gemini_calls := gemini_calls w + 1, logged := logged w @ [ERROR]\<rparr>"
  let ?w2 = "?w1\<lparr>sleeps := sleeps ?w1 @ [1 * 2 ^ n]\<rparr>"
  from Suc.prems have g0: "generate_content e (gemini_calls w) = GenRaise APIError"
    by (metis add.right_neutral zero_less_Suc)
  have body: "ask_llm_body e uid q l w = (Inl APIError, ?w1)"
    by (rule ask_llm_body_api_error [OF conf Suc.prems(1) g0])
  have step: "on_exception left n (ask_llm_body e uid q l) w =
      on_exception left' (Suc n) (ask_llm_body e uid q l) ?w2"
    by (simp add: left body)
  have s2: "user_sessions ?w2 uid = Some ?s1" by simp
  have g: "\<forall>i<k. generate_content e (gemini_calls ?w2 + i) = GenRaise APIError"
    using Suc.prems(3) by (auto simp: less_Suc_eq_0_disj) 
  have sl: "sleeps w @ [1 * 2 ^ n] @ map (\<lambda>i. 2 ^ (Suc n + i)) [0..<k] =
      sleeps w @ map (\<lambda>i. (2::nat) ^ (n + i)) [0..<Suc k]"
    by (simp only: map_upt_Suc) simp
  have weq: "?w2\<lparr>user_sessions := (user_sessions ?w2)
            (uid \<mapsto> ?s1\<lparr>history := history ?s1 @ replicate k (User, q)\<rparr>),
         gemini_calls := gemini_calls ?w2 + k,
         logged := logged ?w2 @ replicate k ERROR,
         sleeps := sleeps ?w2 @ map (\<lambda>i. 2 ^ (Suc n + i)) [0..<k]\<rparr> =
       w\<lparr>user_sessions := (user_sessions w)
            (uid \<mapsto> s\<lparr>history := history s @ replicate (Suc k) (User, q)\<rparr>),
         gemini_calls := gemini_calls w + Suc k,
         logged := logged w @ replicate (Suc k) ERROR,
         sleeps := sleeps w @ map (\<lambda>i. 2 ^ (n + i)) [0..<Suc k]\<rparr>"
    using sl by (simp del: upt_Suc)
  have "on_exception left n (ask_llm_body e uid q l) w =
      on_exception (left' - k) (Suc n + k) (ask_llm_body e uid q l)
       (?w2\<lparr>user_sessions := (user_sessions ?w2)
            (uid \<mapsto> ?s1\<lparr>history := history ?s1 @ replicate k (User, q)\<rparr>),
         gemini_calls := gemini_calls ?w2 + k,
         logged := logged ?w2 @ replicate k ERROR,
         sleeps := sleeps ?w2 @ map (\<lambda>i. 2 ^ (Suc n + i)) [0..<k]\<rparr>)"
    using step Suc.IH [OF s2 k g] by (simp only:)
  also note weq
  finally have fin: "on_exception left n (ask_llm_body e uid q l) w =
      on_exception (left' - k) (Suc n + k) (ask_llm_body e uid q l)
       (w\<lparr>user_sessions := (user_sessions w)
            (uid \<mapsto> s\<lparr>history := history s @ replicate (Suc k) (User, q)\<rparr>),
         gemini_calls := gemini_calls w + Suc k,
         logged := logged w @ replicate (Suc k) ERROR,
         sleeps := sleeps w @ map (\<lambda>i. 2 ^ (n + i)) [0..<Suc k]\<rparr>)" .
  have "left - Suc k = left' - k" and "n + Suc k = Suc n + k"
    by (simp_all add: left)
  with fin show ?case by (simp only:)
qed


lemma ask_llm_after_failures:
  assumes "gemini_client_set e" and "user_sessions w uid = Some s" and "k < max_tries"
    and "\<forall>i<k. generate_content e (gemini_calls w + i) = GenRaise APIError"
  shows "ask_llm e uid q l w =
     on_exception (2 - k) k (ask_llm_body e uid q l)
       (w\<lparr>user_sessions := (user_sessions w)
            (uid \<mapsto> s\<lparr>history := history s @ replicate k (User, q)\<rparr>),
         gemini_calls := gemini_calls w + k,
         logged := logged w @ replicate k ERROR,
         sleeps := sleeps w @ map (\<lambda>i. 2 ^ i) [0..<k]\<rparr>)"
proof -
  from assms(3) have "k \<le> 2" by (simp add: max_tries_def)
  from ask_llm_failures [OF assms(1,2) this assms(4), of 0 q l]
  show ?thesis by (simp add: ask_llm_def max_tries_def)
qed

lemma ask_llm_reply_after_failures:
  assumes conf: "gemini_client_set e" and sess: "user_sessions w uid = Some s"
    and k: "k < max_tries"
    and fails: "\<forall>i<k. generate_content e (gemini_calls w + i) = GenRaise APIError"
    and ok: "generate_content e (gemini_calls w + k) = GenText (Some t)" "py_strip t \<noteq> []"
  shows "ask_llm e uid q l w =
     (Inr (py_strip t),
      w\<lparr>user_sessions := (user_sessions w)
           (uid \<mapsto> s\<lparr>history := history s @ replicate (Suc k) (User, q) @ [(Model, py_strip t)]\<rparr>),
        gemini_calls := gemini_calls w + k + 1,
        logged := logged w @ replicate k ERROR,
        sleeps := sleeps w @ map (\<lambda>i. 2 ^ i) [0..<k]\<rparr>)"
proof -
  let ?sk = "s\<lparr>history := history s @ replicate k (User, q)\<rparr>"
  let ?wk = "w\<lparr>user_sessions := (user_sessions w)(uid \<mapsto> ?sk),
         gemini_calls := gemini_calls w + k,
         logged := logged w @ replicate k ERROR,
         sleeps := sleeps w @ map (\<lambda>i. 2 ^ i) [0..<k]\<rparr>"
  have s: "user_sessions ?wk uid = Some ?sk" by simp
  have g: "generate_content e (gemini_calls ?wk) = GenText (Some t)" using ok(1) by simp
  have "ask_llm e uid q l w = on_exception (2 - k) k (ask_llm_body e uid q l) ?wk"
    by (rule ask_llm_after_failures [OF conf sess k fails])
  also have "\<dots> = (Inr (py_strip t),
     ?wk\<lparr>user_sessions := (user_sessions ?wk)
          (uid \<mapsto> ?sk\<lparr>history := history ?sk @ [(User, q), (Model, py_strip t)]\<rparr>),
       gemini_calls := gemini_calls ?wk + 1\<rparr>)"
    by (rule on_exception_Inr, rule ask_llm_body_reply [OF conf s g ok(2)])
  also have "\<dots> = (Inr (py_strip t),
      w\<lparr>user_sessions := (user_sessions w)
           (uid \<mapsto> s\<lparr>history := history s @ replicate (Suc k) (User, q) @ [(Model, py_strip t)]\<rparr>),
        gemini_calls := gemini_calls w + k + 1,
        logged := logged w @ replicate k ERROR,
        sleeps := sleeps w @ map (\<lambda>i. 2 ^ i) [0..<k]\<rparr>)"
    by (simp add: replicate_app_Cons_same)
  finally show ?thesis .
qed

lemma ask_llm_fallback_after_failures:
  assumes conf: "gemini_client_set e" and sess: "user_sessions w uid = Some s"
    and k: "k < max_tries"
    and fails: "\<forall>i<k. generate_content e (gemini_calls w + i) = GenRaise APIError"
    and soft: "(\<exists>x. generate_content e (gemini_calls w + k) = GenRaise x \<and> x \<noteq> APIError) \<or>
         generate_content e (gemini_calls w + k) = GenText None \<or>
         (\<exists>t. generate_content e (gemini_calls w + k) = GenText (Some t) \<and> py_strip t = [])"
  shows "ask_llm e uid q l w =
     (Inr (fallback_message l),
      w\<lparr>user_sessions := (user_sessions w)
           (uid \<mapsto> s\<lparr>history := history s @ replicate (Suc k) (User, q)\<rparr>),
        gemini_calls := gemini_calls w + k + 1,
        logged := logged w @ replicate (Suc k) ERROR,
        sleeps := sleeps w @ map (\<lambda>i. 2 ^ i) [0..<k]\<rparr>)"
proof -
  let ?sk = "s\<lparr>history := history s @ replicate k (User, q)\<rparr>"
  let ?wk = "w\<lparr>user_sessions := (user_sessions w)(uid \<mapsto> ?sk),
         gemini_calls := gemini_calls w + k,
         logged := logged w @ replicate k ERROR,
         sleeps := sleeps w @ map (\<lambda>i. 2 ^ i) [0..<k]\<rparr>"
  have s: "user_sessions ?wk uid = Some ?sk" by simp
  have g: "(\<exists>x. generate_content e (gemini_calls ?wk) = GenRaise x \<and> x \<noteq> APIError) \<or>
         generate_content e (gemini_calls ?wk) = GenText None \<or>
         (\<exists>t. generate_content e (gemini_calls ?wk) = GenText (Some t) \<and> py_strip t = [])"
    using soft by simp
  have "ask_llm e uid q l w = on_exception (2 - k) k (ask_llm_body e uid q l) ?wk"
    by (rule ask_llm_after_failures [OF conf sess k fails])
  also have "\<dots> = (Inr (fallback_message l),
     ?wk\<lparr>user_sessions := (user_sessions ?wk)
          (uid \<mapsto> ?sk\<lparr>history := history ?sk @ [(User, q)]\<rparr>),
       gemini_calls := gemini_calls ?wk + 1, logged := logged ?wk @ [ERROR]\<rparr>)"
    by (rule on_exception_Inr, rule ask_llm_body_fallback [OF conf s g])
  also have "\<dots> = (Inr (fallback_message l),
      w\<lparr>user_sessions := (user_sessions w)
           (uid \<mapsto> s\<lparr>history := history s @ replicate (Suc k) (User, q)\<rparr>),
        gemini_calls := gemini_calls w + k + 1,
        logged := logged w @ replicate (Suc k) ERROR,
        sleeps := sleeps w @ map (\<lambda>i. 2 ^ i) [0..<k]\<rparr>)"
    by (simp add: replicate_app_Cons_same)
  finally show ?thesis .
qed

lemma ask_llm_exhausted:
  assumes conf: "gemini_client_set e" and sess: "user_sessions w uid = Some s"
    and fails: "\<forall>i<max_tries. generate_content e (gemini_calls w + i) = GenRaise APIError"
  shows "ask_llm e uid q l w =
     (Inl APIError,
      w\<lparr>user_sessions := (user_sessions w)
           (uid \<mapsto> s\<lparr>history := history s @ replicate max_tries (User, q)\<rparr>),
        gemini_calls := gemini_calls w + max_tries,
        logged := logged w @ replicate max_tries ERROR,
        sleeps := sleeps w @ [1, 2]\<rparr>)"
proof -
  let ?sk = "s\<lparr>history := history s @ replicate 2 (User, q)\<rparr>"
  let ?wk = "w\<lparr>user_sessions := (user_sessions w)(uid \<mapsto> ?sk),
         gemini_calls := gemini_calls w + 2,
         logged := logged w @ replicate 2 ERROR,
         sleeps := sleeps w @ map (\<lambda>i. 2 ^ i) [0..<2]\<rparr>"
  have s: "user_sessions ?wk uid = Some ?sk" by simp
  have g: "generate_content e (gemini_calls ?wk) = GenRaise APIError"
    using fails [rule_format, of 2] by (simp add: max_tries_def)
  have f2: "\<forall>i<2. generate_content e (gemini_calls w + i) = GenRaise APIError"
    using fails by (simp add: max_tries_def)
  have "ask_llm e uid q l w = on_exception (2 - 2) 2 (ask_llm_body e uid q l) ?wk"
    by (rule ask_llm_after_failures [OF conf sess _ f2]) (simp add: max_tries_def)
  also have "\<dots> = ask_llm_body e uid q l ?wk" by simp
  also have "\<dots> = (Inl APIError,
     ?wk\<lparr>user_sessions := (user_sessions ?wk)
          (uid \<mapsto> ?sk\<lparr>history := history ?sk @ [(User, q)]\<rparr>),
       gemini_calls := gemini_calls ?wk + 1, logged := logged ?wk @ [ERROR]\<rparr>)"
    by (rule ask_llm_body_api_error [OF conf s g])
  also have "\<dots> = (Inl APIError,
      w\<lparr>user_sessions := (user_sessions w)
           (uid \<mapsto> s\<lparr>history := history s @ replicate max_tries (User, q)\<rparr>),
        gemini_calls := gemini_calls w + max_tries,
        logged := logged w @ replicate max_tries ERROR,
        sleeps := sleeps w @ [1, 2]\<rparr>)"
    by (simp add: max_tries_def numeral_2_eq_2 numeral_3_eq_3)
  finally show ?thesis .
qed

lemma ask_llm_unconfigured:
  "\<not> gemini_client_set e \<Longrightarrow> ask_llm e uid q l w = (Inr (fallback_message l), w)"
  by (simp add: ask_llm_def on_exception_Inr ask_llm_body_def)

text \<open>
  Claim C3, as the code has it. With the client configured and the session stored:
  after \<open>k < 3\<close> provider errors followed by a non-empty reply, \<^verbatim>\<open>ask_llm\<close> returns
  the stripped reply after \<open>k + 1\<close> calls, having waited \<open>1, 2, \<dots>\<close> seconds (before
  jitter) between them; when all three permitted calls end in a provider error, the
  error is raised to the caller after exactly three calls; any other failure, a missing
  text or an empty reply ends the retries at that call and gives the fallback message.
\<close>

theorem ask_llm_retry_outcomes:
  assumes conf: "gemini_client_set e" and sess: "user_sessions w uid = Some s"
  shows "(k < max_tries \<and>
          (\<forall>i<k. generate_content e (gemini_calls w + i) = GenRaise APIError) \<and>
          generate_content e (gemini_calls w + k) = GenText (Some t) \<and> py_strip t \<noteq> [] \<longrightarrow>
            fst (ask_llm e uid q l w) = Inr (py_strip t) \<and>
            gemini_calls (snd (ask_llm e uid q l w)) = gemini_calls w + k + 1 \<and>
            sleeps (snd (ask_llm e uid q l w)) = sleeps w @ map (\<lambda>i. 2 ^ i) [0..<k]) \<and>
         ((\<forall>i<max_tries. generate_content e (gemini_calls w + i) = GenRaise APIError) \<longrightarrow>
            fst (ask_llm e uid q l w) = Inl APIError \<and>
            gemini_calls (snd (ask_llm e uid q l w)) = gemini_calls w + max_tries \<and>
            sleeps (snd (ask_llm e uid q l w)) = sleeps w @ [1, 2]) \<and>
         (k < max_tries \<and>
          (\<forall>i<k. generate_content e (gemini_calls w + i) = GenRaise APIError) \<and>
          ((\<exists>x. generate_content e (gemini_calls w + k) = GenRaise x \<and> x \<noteq> APIError) \<or>
           generate_content e (gemini_calls w + k) = GenText None \<or>
           (\<exists>t'. generate_content e (gemini_calls w + k) = GenText (Some t') \<and> py_strip t' = [])) \<longrightarrow>
            fst (ask_llm e uid q l w) = Inr (fallback_message l) \<and>
            gemini_calls (snd (ask_llm e uid q l w)) = gemini_calls w + k + 1)"
proof (intro conjI impI)
  assume h: "k < max_tries \<and>
          (\<forall>i<k. generate_content e (gemini_calls w + i) = GenRaise APIError) \<and>
          generate_content e (gemini_calls w + k) = GenText (Some t) \<and> py_strip t \<noteq> []"
  then have r: "ask_llm e uid q l w =
     (Inr (py_strip t),
      w\<lparr>user_sessions := (user_sessions w)
           (uid \<mapsto> s\<lparr>history := history s @ replicate (Suc k) (User, q) @ [(Model, py_strip t)]\<rparr>),
        gemini_calls := gemini_calls w + k + 1,
        logged := logged w @ replicate k ERROR,
        sleeps := sleeps w @ map (\<lambda>i. 2 ^ i) [0..<k]\<rparr>)"
    by (intro ask_llm_reply_after_failures [OF conf sess]) simp_all
  show "fst (ask_llm e uid q l w) = Inr (py_strip t)" by (simp add: r)
  show "gemini_calls (snd (ask_llm e uid q l w)) = gemini_calls w + k + 1" by (simp add: r)
  show "sleeps (snd (ask_llm e uid q l w)) = sleeps w @ map (\<lambda>i. 2 ^ i) [0..<k]" by (simp add: r)
next
  assume h: "\<forall>i<max_tries. generate_content e (gemini_calls w + i) = GenRaise APIError"
  note r = ask_llm_exhausted [OF conf sess h, of q l]
  show "fst (ask_llm e uid q l w) = Inl APIError" by (simp add: r)
  show "gemini_calls (snd (ask_llm e uid q l w)) = gemini_calls w + max_tries" by (simp add: r)
  show "sleeps (snd (ask_llm e uid q l w)) = sleeps w @ [1, 2]" by (simp add: r)
next
  assume h: "k < max_tries \<and>
          (\<forall>i<k. generate_content e (gemini_calls w + i) = GenRaise APIError) \<and>
          ((\<exists>x. generate_content e (gemini_calls w + k) = GenRaise x \<and> x \<noteq> APIError) \<or>
           generate_content e (gemini_calls w + k) = GenText None \<or>
           (\<exists>t'. generate_content e (gemini_calls w + k) = GenText (Some t') \<and> py_strip t' = []))"
  then have r: "ask_llm e uid q l w =
     (Inr (fallback_message l),
      w\<lparr>user_sessions := (user_sessions w)
           (uid \<mapsto> s\<lparr>history := history s @ replicate (Suc k) (User, q)\<rparr>),
        gemini_calls := gemini_calls w + k + 1,
        logged := logged w @ replicate (Suc k) ERROR,
        sleeps := sleeps w @ map (\<lambda>i. 2 ^ i) [0..<k]\<rparr>)"
    by (intro ask_llm_fallback_after_failures [OF conf sess]) simp_all
  show "fst (ask_llm e uid q l w) = Inr (fallback_message l)" by (simp add: r)
  show "gemini_calls (snd (ask_llm e uid q l w)) = gemini_calls w + k + 1" by (simp add: r)
qed

theorem ask_llm_retry_outcomes_witness:
  "gemini_client_set (sample_env None (fail_then_text 2 (u '' rest and fluids ''))) \<and>
   user_sessions (one_session_world (u ''a'') (sample_session (u ''en'') 1000)) (u ''a'') =
     Some (sample_session (u ''en'') 1000) \<and>
   2 < max_tries \<and>
   fst (ask_llm (sample_env None (fail_then_text 2 (u '' rest and fluids ''))) (u ''a'') (u ''fever'') (u ''en'')
          (one_session_world (u ''a'') (sample_session (u ''en'') 1000))) = Inr (u ''rest and fluids'') \<and>
   gemini_calls (snd (ask_llm (sample_env None (fail_then_text 2 (u '' rest and fluids ''))) (u ''a'') (u ''fever'') (u ''en'')
          (one_session_world (u ''a'') (sample_session (u ''en'') 1000)))) = 3 \<and>
   sleeps (snd (ask_llm (sample_env None (fail_then_text 2 (u '' rest and fluids ''))) (u ''a'') (u ''fever'') (u ''en'')
          (one_session_world (u ''a'') (sample_session (u ''en'') 1000)))) = [1, 2] \<and>
   fst (ask_llm (sample_env None always_api_error) (u ''a'') (u ''fever'') (u ''en'')
          (one_session_world (u ''a'') (sample_session (u ''en'') 1000))) = Inl APIError \<and>
   gemini_calls (snd (ask_llm (sample_env None always_api_error) (u ''a'') (u ''fever'') (u ''en'')
          (one_session_world (u ''a'') (sample_session (u ''en'') 1000)))) = 3 \<and>
   fst (ask_llm (sample_env None (always_text (u ''  ''))) (u ''a'') (u ''fever'') (u ''en'')
          (one_session_world (u ''a'') (sample_session (u ''en'') 1000))) = Inr (fallback_message (u ''en'')) \<and>
   gemini_calls (snd (ask_llm (sample_env None (always_text (u ''  ''))) (u ''a'') (u ''fever'') (u ''en'')
          (one_session_world (u ''a'') (sample_session (u ''en'') 1000)))) = 1"
proof -
  let ?w = "one_session_world (u ''a'') (sample_session (u ''en'') 1000)"
  let ?t = "u '' rest and fluids ''"
  let ?e1 = "sample_env None (fail_then_text 2 ?t)"
  let ?e2 = "sample_env None always_api_error"
  let ?e3 = "sample_env None (always_text (u ''  ''))"
  have s: "user_sessions ?w (u ''a'') = Some (sample_session (u ''en'') 1000)"
    by (simp add: one_session_world_def)
  have c0: "gemini_calls ?w = 0" and sl0: "sleeps ?w = []"
    by (simp_all add: one_session_world_def empty_world_def)
  have c1: "gemini_client_set ?e1" and c2: "gemini_client_set ?e2" and c3: "gemini_client_set ?e3"
    by (simp_all add: sample_env_def)
  have st: "py_strip ?t = u ''rest and fluids''"
    by (simp add: py_strip_def py_isspace_def u_def)
  have h1: "2 < max_tries \<and>
      (\<forall>i<2. generate_content ?e1 (gemini_calls ?w + i) = GenRaise APIError) \<and>
      generate_content ?e1 (gemini_calls ?w + 2) = GenText (Some ?t) \<and> py_strip ?t \<noteq> []"
    by (simp add: max_tries_def sample_env_def fail_then_text_def c0 st) (simp add: u_def)
  have h2: "\<forall>i<max_tries. generate_content ?e2 (gemini_calls ?w + i) = GenRaise APIError"
    by (simp add: sample_env_def always_api_error_def)
  have h3: "0 < max_tries \<and>
      (\<forall>i<0. generate_content ?e3 (gemini_calls ?w + i) = GenRaise APIError) \<and>
      ((\<exists>x. generate_content ?e3 (gemini_calls ?w + 0) = GenRaise x \<and> x \<noteq> APIError) \<or>
       generate_content ?e3 (gemini_calls ?w + 0) = GenText None \<or>
       (\<exists>t'. generate_content ?e3 (gemini_calls ?w + 0) = GenText (Some t') \<and> py_strip t' = []))"
    by (simp add: max_tries_def sample_env_def always_text_def py_strip_def py_isspace_def u_def)
  note r1 = ask_llm_retry_outcomes [OF c1 s, of 2 ?t "u ''fever''" "u ''en''",
      THEN conjunct1, THEN mp, OF h1]
  note r2 = ask_llm_retry_outcomes [OF c2 s, of 0 "[]" "u ''fever''" "u ''en''",
      THEN conjunct2, THEN conjunct1, THEN mp, OF h2]
  note r3 = ask_llm_retry_outcomes [OF c3 s, of 0 "[]" "u ''fever''" "u ''en''",
      THEN conjunct2, THEN conjunct2, THEN mp, OF h3]
  have "[0..<2] = [0, Suc 0]"
    by (simp add: numeral_2_eq_2)
  then have m: "map (\<lambda>i. (2::nat) ^ i) [0..<2] = [1, 2]"
    by simp
  from r1 r2 r3 c1 s show ?thesis
    by (simp only: c0 sl0 st m max_tries_def append_Nil) simp
qed

text \<open>
  The claim as stated fails: with a provider that always raises \<^verbatim>\<open>APIError\<close> the
  decorated function raises, and an empty reply is answered after one call, not three.
\<close>

theorem ask_llm_raises_counterexample:
  "fst (ask_llm (sample_env None always_api_error) (u ''a'') (u ''fever'') (u ''en'')
          (one_session_world (u ''a'') (sample_session (u ''en'') 1000))) = Inl APIError \<and>
   gemini_calls (snd (ask_llm (sample_env None (always_text [])) (u ''a'') (u ''fever'') (u ''en'')
          (one_session_world (u ''a'') (sample_session (u ''en'') 1000)))) = 1"
proof -
  let ?w = "one_session_world (u ''a'') (sample_session (u ''en'') 1000)"
  have s: "user_sessions ?w (u ''a'') = Some (sample_session (u ''en'') 1000)"
    by (simp add: one_session_world_def)
  have c1: "gemini_client_set (sample_env None always_api_error)"
    and c2: "gemini_client_set (sample_env None (always_text []))"
    by (simp_all add: sample_env_def)
  have f: "\<forall>i<max_tries. generate_content (sample_env None always_api_error) (gemini_calls ?w + i) =
      GenRaise APIError"
    by (simp add: sample_env_def always_api_error_def)
  have "(\<exists>x. generate_content (sample_env None (always_text [])) (gemini_calls ?w + 0) = GenRaise x \<and> x \<noteq> APIError) \<or>
        generate_content (sample_env None (always_text [])) (gemini_calls ?w + 0) = GenText None \<or>
        (\<exists>t. generate_content (sample_env None (always_text [])) (gemini_calls ?w + 0) = GenText (Some t) \<and>
             py_strip t = [])"
    by (simp add: sample_env_def always_text_def py_strip_def)
  from ask_llm_fallback_after_failures [OF c2 s _ _ this, of "u ''fever''" "u ''en''"]
  have "gemini_calls (snd (ask_llm (sample_env None (always_text [])) (u ''a'') (u ''fever'') (u ''en'') ?w)) = 1"
    by (simp add: max_tries_def one_session_world_def empty_world_def)
  with ask_llm_exhausted [OF c1 s f, of "u ''fever''" "u ''en''"] show ?thesis by simp
qed

lemma ask_llm_body_failed_history:
  assumes conf: "gemini_client_set e" and sess: "user_sessions w uid = Some s"
    and failed: "\<forall>t. generate_content e (gemini_calls w) = GenText (Some t) \<longrightarrow> py_strip t = []"
  shows "user_sessions (snd (ask_llm_body e uid q l w)) uid =
      Some (s\<lparr>history := history s @ [(User, q)]\<rparr>)"
proof (cases "generate_content e (gemini_calls w) = GenRaise APIError")
  case True
  from ask_llm_body_api_error [OF conf sess True, of q l] show ?thesis by simp
next
  case False
  with failed have "(\<exists>x. generate_content e (gemini_calls w) = GenRaise x \<and> x \<noteq> APIError) \<or>
         generate_content e (gemini_calls w) = GenText None \<or>
         (\<exists>t. generate_content e (gemini_calls w) = GenText (Some t) \<and> py_strip t = [])"
    by (cases "generate_content e (gemini_calls w)") auto
  from ask_llm_body_fallback [OF conf sess this, of q l] show ?thesis by simp
qed

text \<open>
  Claim C8. \<^verbatim>\<open>ask_llm\<close> appends the user turn before it calls the model and does not
  take it back: after an attempt that does not produce a non-empty reply the stored
  history is the old one followed by the user turn alone, with no model turn, while a
  successful attempt leaves the user turn followed by the model turn. Every retry appends
  the user turn again, so three provider errors leave three unanswered user turns.
\<close>

theorem failed_attempt_keeps_user_turn:
  assumes conf: "gemini_client_set e" and sess: "user_sessions w uid = Some s"
  shows "((\<forall>t. generate_content e (gemini_calls w) = GenText (Some t) \<longrightarrow> py_strip t = []) \<longrightarrow>
            (\<exists>s'. user_sessions (snd (ask_llm_body e uid q l w)) uid = Some s' \<and>
                  history s' = history s @ [(User, q)])) \<and>
         (generate_content e (gemini_calls w) = GenText (Some t) \<and> py_strip t \<noteq> [] \<longrightarrow>
            (\<exists>s'. user_sessions (snd (ask_llm_body e uid q l w)) uid = Some s' \<and>
                  history s' = history s @ [(User, q), (Model, py_strip t)])) \<and>
         (k < max_tries \<and>
          (\<forall>i<k. generate_content e (gemini_calls w + i) = GenRaise APIError) \<and>
          ((\<exists>x. generate_content e (gemini_calls w + k) = GenRaise x \<and> x \<noteq> APIError) \<or>
           generate_content e (gemini_calls w + k) = GenText None \<or>
           (\<exists>t'. generate_content e (gemini_calls w + k) = GenText (Some t') \<and> py_strip t' = [])) \<longrightarrow>
            (\<exists>s'. user_sessions (snd (ask_llm e uid q l w)) uid = Some s' \<and>
                  history s' = history s @ replicate (Suc k) (User, q))) \<and>
         ((\<forall>i<max_tries. generate_content e (gemini_calls w + i) = GenRaise APIError) \<longrightarrow>
            (\<exists>s'. user_sessions (snd (ask_llm e uid q l w)) uid = Some s' \<and>
                  history s' = history s @ replicate max_tries (User, q)))"
proof (intro conjI impI)
  assume "\<forall>t. generate_content e (gemini_calls w) = GenText (Some t) \<longrightarrow> py_strip t = []"
  from ask_llm_body_failed_history [OF conf sess this, of q l]
  show "\<exists>s'. user_sessions (snd (ask_llm_body e uid q l w)) uid = Some s' \<and>
                  history s' = history s @ [(User, q)]"
    by simp
next
  assume "generate_content e (gemini_calls w) = GenText (Some t) \<and> py_strip t \<noteq> []"
  then have "ask_llm_body e uid q l w =
    (Inr (py_strip t),
     w\<lparr>user_sessions := (user_sessions w)
          (uid \<mapsto> s\<lparr>history := history s @ [(User, q), (Model, py_strip t)]\<rparr>),
       gemini_calls := gemini_calls w + 1\<rparr>)"
    by (intro ask_llm_body_reply [OF conf sess]) simp_all
  then show "\<exists>s'. user_sessions (snd (ask_llm_body e uid q l w)) uid = Some s' \<and>
                  history s' = history s @ [(User, q), (Model, py_strip t)]"
    by simp
next
  assume "k < max_tries \<and>
          (\<forall>i<k. generate_content e (gemini_calls w + i) = GenRaise APIError) \<and>
          ((\<exists>x. generate_content e (gemini_calls w + k) = GenRaise x \<and> x \<noteq> APIError) \<or>
           generate_content e (gemini_calls w + k) = GenText None \<or>
           (\<exists>t'. generate_content e (gemini_calls w + k) = GenText (Some t') \<and> py_strip t' = []))"
  then have "ask_llm e uid q l w =
     (Inr (fallback_message l),
      w\<lparr>user_sessions := (user_sessions w)
           (uid \<mapsto> s\<lparr>history := history s @ replicate (Suc k) (User, q)\<rparr>),
        gemini_calls := gemini_calls w + k + 1,
        logged := logged w @ replicate (Suc k) ERROR,
        sleeps := sleeps w @ map (\<lambda>i. 2 ^ i) [0..<k]\<rparr>)"
    by (intro ask_llm_fallback_after_failures [OF conf sess]) simp_all
  then show "\<exists>s'. user_sessions (snd (ask_llm e uid q l w)) uid = Some s' \<and>
                  history s' = history s @ replicate (Suc k) (User, q)"
    by simp
next
  assume "\<forall>i<max_tries. generate_content e (gemini_calls w + i) = GenRaise APIError"
  from ask_llm_exhausted [OF conf sess this, of q l]
  show "\<exists>s'. user_sessions (snd (ask_llm e uid q l w)) uid = Some s' \<and>
                  history s' = history s @ replicate max_tries (User, q)"
    by simp
qed

theorem failed_attempt_keeps_user_turn_witness:
  "gemini_client_set (sample_env None (always_text (u '' ''))) \<and>
   user_sessions (one_session_world (u ''a'') (sample_session (u ''en'') 1000)) (u ''a'') =
     Some (sample_session (u ''en'') 1000) \<and>
   generate_content (sample_env None (always_text (u '' '')))
       (gemini_calls (one_session_world (u ''a'') (sample_session (u ''en'') 1000))) =
     GenText (Some (u '' '')) \<and>
   py_strip (u '' '') = [] \<and>
   (\<exists>s'. user_sessions (snd (ask_llm_body (sample_env None (always_text (u '' ''))) (u ''a'') (u ''fever'') (u ''en'')
            (one_session_world (u ''a'') (sample_session (u ''en'') 1000)))) (u ''a'') = Some s' \<and>
         history s' = [(User, u ''fever'')]) \<and>
   (\<exists>s'. user_sessions (snd (ask_llm (sample_env None always_api_error) (u ''a'') (u ''fever'') (u ''en'')
            (one_session_world (u ''a'') (sample_session (u ''en'') 1000)))) (u ''a'') = Some s' \<and>
         history s' = [(User, u ''fever''), (User, u ''fever''), (User, u ''fever'')])"
proof -
  let ?w = "one_session_world (u ''a'') (sample_session (u ''en'') 1000)"
  let ?e1 = "sample_env None (always_text (u '' ''))"
  let ?e2 = "sample_env None always_api_error"
  have s: "user_sessions ?w (u ''a'') = Some (sample_session (u ''en'') 1000)"
    by (simp add: one_session_world_def)
  have c1: "gemini_client_set ?e1" and c2: "gemini_client_set ?e2"
    by (simp_all add: sample_env_def)
  have h1: "\<forall>t. generate_content ?e1 (gemini_calls ?w) = GenText (Some t) \<longrightarrow> py_strip t = []"
    by (simp add: sample_env_def always_text_def py_strip_def py_isspace_def u_def)
  have h2: "\<forall>i<max_tries. generate_content ?e2 (gemini_calls ?w + i) = GenRaise APIError"
    by (simp add: sample_env_def always_api_error_def)
  note r1 = failed_attempt_keeps_user_turn [OF c1 s, of "u ''fever''" "u ''en''" "[]" 0,
      THEN conjunct1, THEN mp, OF h1]
  note r2 = failed_attempt_keeps_user_turn [OF c2 s, of "u ''fever''" "u ''en''" "[]" 0,
      THEN conjunct2, THEN conjunct2, THEN conjunct2, THEN mp, OF h2]
  have h: "history (sample_session (u ''en'') 1000) = []"
    by (simp add: sample_session_def)
  have g1: "generate_content ?e1 (gemini_calls ?w) = GenText (Some (u '' ''))"
    and e1: "py_strip (u '' '') = []"
    by (simp_all add: sample_env_def always_text_def py_strip_def py_isspace_def u_def)
  from r1 r2 c1 s g1 e1 show ?thesis
    by (simp only: h append_Nil max_tries_def numeral_3_eq_3 replicate_Suc replicate_0)
qed

section \<open>The conversation flow\<close>

text \<open>
  The three branches of \<^verbatim>\<open>build_conversation_response\<close> after the session is
  resolved, and what resolving the session leaves untouched.
\<close>

lemma any_in_iff:
  "any_in ws text \<longleftrightarrow> (\<exists>word\<in>set ws. \<exists>ps ss. text = ps @ word @ ss)"
  by (simp add: any_in_def py_in_def list_ex_iff sublist_def)

lemma get_user_state_frame:
  "get_user_state e uid w = (st, w1) \<Longrightarrow>
     gemini_calls w1 = gemini_calls w \<and> logged w1 = logged w \<and> sleeps w1 = sleeps w \<and>
     (\<forall>other. other \<noteq> uid \<longrightarrow> user_sessions w1 other = user_sessions w other)"
  by (auto simp: get_user_state_def Let_def split: option.splits if_splits)

lemma resolve_session_frame:
  assumes "resolve_session e uid text w = (first, l, w2)"
  shows "gemini_calls w2 = gemini_calls w" and "logged w2 = logged w" and "sleeps w2 = sleeps w"
    and "other \<noteq> uid \<Longrightarrow> user_sessions w2 other = user_sessions w other"
    and "\<exists>s2. user_sessions w2 uid = Some s2 \<and> lang s2 = Some l"
proof -
  obtain st w1 where g: "get_user_state e uid w = (st, w1)"
    by (cases "get_user_state e uid w")
  from assms g have w2: "w2 = w1\<lparr>user_sessions := (user_sessions w1)
      (uid \<mapsto> st\<lparr>msg_count := msg_count st + 1, lang := Some l\<rparr>)\<rparr>"
    by (auto simp: resolve_session_def Let_def)
  note f = get_user_state_frame [OF g]
  show "gemini_calls w2 = gemini_calls w" "logged w2 = logged w" "sleeps w2 = sleeps w"
    using f by (simp_all add: w2)
  show "other \<noteq> uid \<Longrightarrow> user_sessions w2 other = user_sessions w other"
    using f by (simp add: w2)
  show "\<exists>s2. user_sessions w2 uid = Some s2 \<and> lang s2 = Some l"
    by (simp add: w2)
qed

lemma build_exit:
  assumes "any_in EXIT_WORDS (py_strip (str_lower e text))"
    and "resolve_session e uid text w = (first, l, w2)"
  shows "build_conversation_response e uid text is_audio w =
     (Inr exit_reply, w2\<lparr>user_sessions := (user_sessions w2)(uid := None)\<rparr>)"
  using assms by (simp add: build_conversation_response_def)

lemma emergency_en:
  "map_of EMERGENCY_MESSAGE (u ''en'') =
     Some ([0x26A0, 0xFE0F] @ u '' **EMERGENCY!** This may be a life-threatening situation. Please call an ambulance immediately: **108** or go to the nearest health center.'')"
  by (simp add: EMERGENCY_MESSAGE_def u_def)

lemma build_emergency:
  assumes "\<not> any_in EXIT_WORDS (py_strip (str_lower e text))"
    and "any_in EMERGENCY_WORDS (py_strip (str_lower e text))"
    and "resolve_session e uid text w = (first, l, w2)"
    and "map_of EMERGENCY_MESSAGE (u ''en'') = Some en"
  shows "build_conversation_response e uid text is_audio w =
     (Inr (dict_get EMERGENCY_MESSAGE l en),
      w2\<lparr>logged := logged w2 @ [CRITICAL], user_sessions := (user_sessions w2)(uid := None)\<rparr>)"
  using assms by (simp add: build_conversation_response_def Let_def)

lemma build_model_turn:
  assumes "\<not> any_in EXIT_WORDS (py_strip (str_lower e text))"
    and "\<not> any_in EMERGENCY_WORDS (py_strip (str_lower e text))"
    and "resolve_session e uid text w = (first, l, w2)"
  shows "build_conversation_response e uid text is_audio w =
     (case ask_llm e uid text l w2 of
        (Inr llm_reply, w3) \<Rightarrow>
          (Inr ((if first \<and> \<not> is_audio then welcome_banner l else []) @ llm_reply @ referral_block l), w3)
      | (Inl x, w3) \<Rightarrow> (Inr (fallback_message l), w3))"
  using assms by (simp add: build_conversation_response_def Let_def)

text \<open>
  Claim C1. When the lower-cased and stripped text contains an exit phrase as a substring,
  \<^verbatim>\<open>build_conversation_response\<close> answers with the fixed English acknowledgment,
  removes the session of the user, calls the model not at all and logs nothing; the
  sessions of other users stay as they are. Nothing is assumed about emergency phrases:
  the exit test comes first.
\<close>

theorem exit_phrase_ends_session:
  assumes "word \<in> set EXIT_WORDS" and "py_strip (str_lower e text) = ps @ word @ ss"
  shows "fst (build_conversation_response e uid text is_audio w) = Inr exit_reply \<and>
         user_sessions (snd (build_conversation_response e uid text is_audio w)) uid = None \<and>
         gemini_calls (snd (build_conversation_response e uid text is_audio w)) = gemini_calls w \<and>
         logged (snd (build_conversation_response e uid text is_audio w)) = logged w \<and>
         (\<forall>other. other \<noteq> uid \<longrightarrow>
            user_sessions (snd (build_conversation_response e uid text is_audio w)) other =
            user_sessions w other)"
proof -
  from assms have ex: "any_in EXIT_WORDS (py_strip (str_lower e text))"
    unfolding any_in_iff by blast
  obtain first l w2 where r: "resolve_session e uid text w = (first, l, w2)"
    by (cases "resolve_session e uid text w")
  note b = build_exit [OF ex r, of is_audio]
  note f = resolve_session_frame [OF r]
  show ?thesis using f(1,2,4) by (simp add: b)
qed

theorem exit_phrase_ends_session_witness:
  "u ''thanks'' \<in> set EXIT_WORDS \<and>
   py_strip (str_lower (sample_env (Some (u ''en'')) always_api_error) (u ''Chest pain, THANKS '')) =
     u ''chest pain, '' @ u ''thanks'' @ [] \<and>
   any_in EMERGENCY_WORDS
     (py_strip (str_lower (sample_env (Some (u ''en'')) always_api_error) (u ''Chest pain, THANKS ''))) \<and>
   fst (build_conversation_response (sample_env (Some (u ''en'')) always_api_error) (u ''a'')
          (u ''Chest pain, THANKS '') False
          (one_session_world (u ''a'') (sample_session (u ''en'') 1000))) = Inr exit_reply \<and>
   user_sessions (snd (build_conversation_response (sample_env (Some (u ''en'')) always_api_error) (u ''a'')
          (u ''Chest pain, THANKS '') False
          (one_session_world (u ''a'') (sample_session (u ''en'') 1000)))) (u ''a'') = None \<and>
   gemini_calls (snd (build_conversation_response (sample_env (Some (u ''en'')) always_api_error) (u ''a'')
          (u ''Chest pain, THANKS '') False
          (one_session_world (u ''a'') (sample_session (u ''en'') 1000)))) = 0"
proof -
  let ?e = "sample_env (Some (u ''en'')) always_api_error"
  let ?t = "u ''Chest pain, THANKS ''"
  have n: "py_strip (str_lower ?e ?t) = u ''chest pain, thanks''"
    by (simp add: sample_env_def ascii_lower_def py_strip_def py_isspace_def u_def)
  have h1: "u ''thanks'' \<in> set EXIT_WORDS"
    by (simp add: EXIT_WORDS_def)
  have h2: "py_strip (str_lower ?e ?t) = u ''chest pain, '' @ u ''thanks'' @ []"
    by (simp add: n) (simp add: u_def)
  have "u ''chest pain, thanks'' = [] @ u ''chest pain'' @ u '', thanks''"
    by (simp add: u_def)
  moreover have "u ''chest pain'' \<in> set EMERGENCY_WORDS"
    by (simp add: EMERGENCY_WORDS_def)
  ultimately have em: "any_in EMERGENCY_WORDS (py_strip (str_lower ?e ?t))"
    unfolding n any_in_iff by blast
  have g: "gemini_calls (one_session_world (u ''a'') (sample_session (u ''en'') 1000)) = 0"
    by (simp add: one_session_world_def empty_world_def)
  from exit_phrase_ends_session [OF h1 h2, of "u ''a''" False
      "one_session_world (u ''a'') (sample_session (u ''en'') 1000)"] h1 h2 em g
  show ?thesis by simp
qed

text \<open>
  Claim C10. When the text is neither an exit nor an emergency and \<^verbatim>\<open>ask_llm\<close>
  raises on the committed session, the reply is the fallback message of the session
  language and nothing else, whether or not a welcome banner had been prepared, and no
  referral block follows.
\<close>

theorem model_failure_gives_bare_fallback:
  assumes "\<not> any_in EXIT_WORDS (py_strip (str_lower e text))"
    and "\<not> any_in EMERGENCY_WORDS (py_strip (str_lower e text))"
    and "resolve_session e uid text w = (first, l, w2)"
    and "ask_llm e uid text l w2 = (Inl x, w3)"
  shows "build_conversation_response e uid text is_audio w = (Inr (fallback_message l), w3)"
  using build_model_turn [OF assms(1-3), of is_audio] assms(4) by simp

lemma fever_no_exit:
  "\<not> any_in EXIT_WORDS (py_strip (str_lower (sample_env d g) (u ''Fever'')))"
  by (simp add: sample_env_def ascii_lower_def py_strip_def py_isspace_def u_def
        any_in_def py_in_def EXIT_WORDS_def sublist_code)

lemma fever_no_emergency:
  "\<not> any_in EMERGENCY_WORDS (py_strip (str_lower (sample_env d g) (u ''Fever'')))"
  by (simp add: sample_env_def ascii_lower_def py_strip_def py_isspace_def u_def
        any_in_def py_in_def EMERGENCY_WORDS_def sublist_code)

lemma fever_first_resolve:
  "resolve_session (sample_env (Some (u ''en'')) g) (u ''a'') (u ''Fever'') empty_world =
     (True, u ''en'',
      empty_world\<lparr>clock_reads := 1,
        user_sessions := [u ''a'' \<mapsto>
          \<lparr>lang = Some (u ''en''), msg_count = 1, last_seen = 1000, history = []\<rparr>]\<rparr>)"
  by (simp add: resolve_session_def get_user_state_def fresh_session_def empty_world_def
        sample_env_def detect_language_def SUPPORTED_LANGS_def Let_def)

theorem model_failure_gives_bare_fallback_witness:
  "\<not> any_in EXIT_WORDS (py_strip (str_lower (sample_env (Some (u ''en'')) always_api_error) (u ''Fever''))) \<and>
   \<not> any_in EMERGENCY_WORDS (py_strip (str_lower (sample_env (Some (u ''en'')) always_api_error) (u ''Fever''))) \<and>
   fst (resolve_session (sample_env (Some (u ''en'')) always_api_error) (u ''a'') (u ''Fever'') empty_world) = True \<and>
   fst (build_conversation_response (sample_env (Some (u ''en'')) always_api_error) (u ''a'') (u ''Fever'')
          False empty_world) = Inr (fallback_message (u ''en'')) \<and>
   gemini_calls (snd (build_conversation_response (sample_env (Some (u ''en'')) always_api_error) (u ''a'')
          (u ''Fever'') False empty_world)) = 3"
proof -
  let ?e = "sample_env (Some (u ''en'')) always_api_error"
  let ?s2 = "\<lparr>lang = Some (u ''en''), msg_count = 1, last_seen = 1000, history = []\<rparr>"
  let ?w2 = "empty_world\<lparr>clock_reads := 1, user_sessions := [u ''a'' \<mapsto> ?s2]\<rparr>"
  have c: "gemini_client_set ?e" by (simp add: sample_env_def)
  have s: "user_sessions ?w2 (u ''a'') = Some ?s2" by simp
  have f: "\<forall>i<max_tries. generate_content ?e (gemini_calls ?w2 + i) = GenRaise APIError"
    by (simp add: sample_env_def always_api_error_def)
  have g0: "gemini_calls empty_world = 0" by (simp add: empty_world_def)
  note a = ask_llm_exhausted [OF c s f, of "u ''Fever''" "u ''en''"]
  note t = model_failure_gives_bare_fallback [OF fever_no_exit fever_no_emergency
      fever_first_resolve a, of False]
  show ?thesis
    using fever_no_exit [of "Some (u ''en'')" always_api_error]
      fever_no_emergency [of "Some (u ''en'')" always_api_error]
    by (simp add: t fever_first_resolve max_tries_def g0)
qed

lemma resolve_session_lang:
  assumes "resolve_session e uid text w = (first, l, w2)"
  shows "(user_sessions w uid = Some s \<and>
          time_time e (clock_reads w) - last_seen s \<le> SESSION_TIMEOUT \<and> lang s = Some l0 \<longrightarrow> l = l0) \<and>
         (\<not> (\<exists>s'. user_sessions w uid = Some s' \<and>
                time_time e (clock_reads w) - last_seen s' \<le> SESSION_TIMEOUT) \<longrightarrow>
            l = detect_language e text)"
  using assms
  by (auto simp: resolve_session_def get_user_state_def fresh_session_def Let_def
        split: option.splits if_splits)

lemma emergency_unrecognized:
  "l \<notin> set SUPPORTED_LANGS \<Longrightarrow> dict_get EMERGENCY_MESSAGE l en = en"
  by (simp add: dict_get_def EMERGENCY_MESSAGE_def SUPPORTED_LANGS_def)

text \<open>
  Claim C2, as the code has it. When the normalised text contains an emergency phrase and
  no exit phrase, \<^verbatim>\<open>build_conversation_response\<close> answers with the emergency message
  of the session language (the stored language of a live session, the detected one
  otherwise; the English message for a code outside the supported ones), removes the
  session, calls the model not at all and writes exactly one \<^verbatim>\<open>CRITICAL\<close> record.
\<close>

theorem emergency_phrase_hands_off:
  assumes "\<not> any_in EXIT_WORDS (py_strip (str_lower e text))"
    and "word \<in> set EMERGENCY_WORDS" and "py_strip (str_lower e text) = ps @ word @ ss"
  shows "\<exists>l en. l = fst (snd (resolve_session e uid text w)) \<and>
           map_of EMERGENCY_MESSAGE (u ''en'') = Some en \<and>
           fst (build_conversation_response e uid text is_audio w) =
             Inr (dict_get EMERGENCY_MESSAGE l en) \<and>
           (l \<notin> set SUPPORTED_LANGS \<longrightarrow> dict_get EMERGENCY_MESSAGE l en = en) \<and>
           (\<forall>s l0. user_sessions w uid = Some s \<and>
              time_time e (clock_reads w) - last_seen s \<le> SESSION_TIMEOUT \<and> lang s = Some l0 \<longrightarrow>
              l = l0) \<and>
           (\<not> (\<exists>s'. user_sessions w uid = Some s' \<and>
                time_time e (clock_reads w) - last_seen s' \<le> SESSION_TIMEOUT) \<longrightarrow>
              l = detect_language e text) \<and>
           user_sessions (snd (build_conversation_response e uid text is_audio w)) uid = None \<and>
           gemini_calls (snd (build_conversation_response e uid text is_audio w)) = gemini_calls w \<and>
           logged (snd (build_conversation_response e uid text is_audio w)) = logged w @ [CRITICAL]"
proof -
  from assms(2,3) have em: "any_in EMERGENCY_WORDS (py_strip (str_lower e text))"
    unfolding any_in_iff by blast
  obtain first l w2 where r: "resolve_session e uid text w = (first, l, w2)"
    by (cases "resolve_session e uid text w")
  obtain en where en: "map_of EMERGENCY_MESSAGE (u ''en'') = Some en"
    using emergency_en by blast
  note b = build_emergency [OF assms(1) em r en, of is_audio]
  note f = resolve_session_frame [OF r]
  have "l = fst (snd (resolve_session e uid text w))" by (simp add: r)
  moreover have "fst (build_conversation_response e uid text is_audio w) =
             Inr (dict_get EMERGENCY_MESSAGE l en)" by (simp add: b)
  moreover have "l \<notin> set SUPPORTED_LANGS \<longrightarrow> dict_get EMERGENCY_MESSAGE l en = en"
    by (simp add: emergency_unrecognized)
  moreover have "\<forall>s l0. user_sessions w uid = Some s \<and>
              time_time e (clock_reads w) - last_seen s \<le> SESSION_TIMEOUT \<and> lang s = Some l0 \<longrightarrow>
              l = l0"
    using resolve_session_lang [OF r] by blast
  moreover have "\<not> (\<exists>s'. user_sessions w uid = Some s' \<and>
                time_time e (clock_reads w) - last_seen s' \<le> SESSION_TIMEOUT) \<longrightarrow>
              l = detect_language e text"
    using resolve_session_lang [OF r] by blast
  moreover have "user_sessions (snd (build_conversation_response e uid text is_audio w)) uid = None"
    by (simp add: b)
  moreover have "gemini_calls (snd (build_conversation_response e uid text is_audio w)) = gemini_calls w"
    using f(1) by (simp add: b)
  moreover have "logged (snd (build_conversation_response e uid text is_audio w)) = logged w @ [CRITICAL]"
    using f(2) by (simp add: b)
  ultimately show ?thesis using en by blast
qed


theorem emergency_phrase_hands_off_witness:
  "\<not> any_in EXIT_WORDS
       (py_strip (str_lower (sample_env (Some (u ''en'')) always_api_error) (u ''I have CHEST PAIN''))) \<and>
   u ''chest pain'' \<in> set EMERGENCY_WORDS \<and>
   py_strip (str_lower (sample_env (Some (u ''en'')) always_api_error) (u ''I have CHEST PAIN'')) =
     u ''i have '' @ u ''chest pain'' @ [] \<and>
   (\<exists>m. map_of EMERGENCY_MESSAGE (u ''hi'') = Some m \<and>
        fst (build_conversation_response (sample_env (Some (u ''en'')) always_api_error) (u ''a'')
               (u ''I have CHEST PAIN'') False
               (one_session_world (u ''a'') (sample_session (u ''hi'') 900))) = Inr m) \<and>
   user_sessions (snd (build_conversation_response (sample_env (Some (u ''en'')) always_api_error) (u ''a'')
               (u ''I have CHEST PAIN'') False
               (one_session_world (u ''a'') (sample_session (u ''hi'') 900)))) (u ''a'') = None \<and>
   gemini_calls (snd (build_conversation_response (sample_env (Some (u ''en'')) always_api_error) (u ''a'')
               (u ''I have CHEST PAIN'') False
               (one_session_world (u ''a'') (sample_session (u ''hi'') 900)))) = 0 \<and>
   logged (snd (build_conversation_response (sample_env (Some (u ''en'')) always_api_error) (u ''a'')
               (u ''I have CHEST PAIN'') False
               (one_session_world (u ''a'') (sample_session (u ''hi'') 900)))) = [CRITICAL]"
proof -
  let ?e = "sample_env (Some (u ''en'')) always_api_error"
  let ?t = "u ''I have CHEST PAIN''"
  let ?w = "one_session_world (u ''a'') (sample_session (u ''hi'') 900)"
  have n: "py_strip (str_lower ?e ?t) = u ''i have chest pain''"
    by (simp add: sample_env_def ascii_lower_def py_strip_def py_isspace_def u_def)
  have h1: "\<not> any_in EXIT_WORDS (py_strip (str_lower ?e ?t))"
    unfolding n by (simp add: u_def any_in_def py_in_def EXIT_WORDS_def sublist_code)
  have h2: "u ''chest pain'' \<in> set EMERGENCY_WORDS"
    by (simp add: EMERGENCY_WORDS_def)
  have h3: "py_strip (str_lower ?e ?t) = u ''i have '' @ u ''chest pain'' @ []"
    unfolding n by (simp add: u_def)
  have live: "user_sessions ?w (u ''a'') = Some (sample_session (u ''hi'') 900) \<and>
      time_time ?e (clock_reads ?w) - last_seen (sample_session (u ''hi'') 900) \<le> SESSION_TIMEOUT \<and>
      lang (sample_session (u ''hi'') 900) = Some (u ''hi'')"
    by (simp add: one_session_world_def empty_world_def sample_session_def sample_env_def
          SESSION_TIMEOUT_def)
  have w0: "gemini_calls ?w = 0" "logged ?w = []"
    by (simp_all add: one_session_world_def empty_world_def)
  from emergency_phrase_hands_off [OF h1 h2 h3, of "u ''a''" ?w False]
  obtain l en where
    b: "fst (build_conversation_response ?e (u ''a'') ?t False ?w) = Inr (dict_get EMERGENCY_MESSAGE l en)"
    and l: "\<forall>s l0. user_sessions ?w (u ''a'') = Some s \<and>
              time_time ?e (clock_reads ?w) - last_seen s \<le> SESSION_TIMEOUT \<and> lang s = Some l0 \<longrightarrow>
              l = l0"
    and rest: "user_sessions (snd (build_conversation_response ?e (u ''a'') ?t False ?w)) (u ''a'') = None"
      "gemini_calls (snd (build_conversation_response ?e (u ''a'') ?t False ?w)) = gemini_calls ?w"
      "logged (snd (build_conversation_response ?e (u ''a'') ?t False ?w)) = logged ?w @ [CRITICAL]"
    by blast
  from l live have "l = u ''hi''" by blast
  moreover obtain m where m: "map_of EMERGENCY_MESSAGE (u ''hi'') = Some m"
    by (simp add: EMERGENCY_MESSAGE_def u_def)
  ultimately have "fst (build_conversation_response ?e (u ''a'') ?t False ?w) = Inr m"
    using b by (simp add: dict_get_def)
  with m h1 h2 h3 rest show ?thesis by (simp add: w0)
qed

text \<open>
  Without the exclusion of exit phrases the claim fails: a text with both kinds of phrase
  gets the exit acknowledgment and no log record.
\<close>

theorem emergency_with_exit_counterexample:
  "any_in EMERGENCY_WORDS
     (py_strip (str_lower (sample_env (Some (u ''en'')) always_api_error) (u ''chest pain, thanks''))) \<and>
   fst (build_conversation_response (sample_env (Some (u ''en'')) always_api_error) (u ''a'')
          (u ''chest pain, thanks'') False
          (one_session_world (u ''a'') (sample_session (u ''en'') 900))) = Inr exit_reply \<and>
   fst (build_conversation_response (sample_env (Some (u ''en'')) always_api_error) (u ''a'')
          (u ''chest pain, thanks'') False
          (one_session_world (u ''a'') (sample_session (u ''en'') 900))) \<noteq>
     Inr ([0x26A0, 0xFE0F] @ u '' **EMERGENCY!** This may be a life-threatening situation. Please call an ambulance immediately: **108** or go to the nearest health center.'') \<and>
   logged (snd (build_conversation_response (sample_env (Some (u ''en'')) always_api_error) (u ''a'')
          (u ''chest pain, thanks'') False
          (one_session_world (u ''a'') (sample_session (u ''en'') 900)))) = []"
proof -
  let ?e = "sample_env (Some (u ''en'')) always_api_error"
  let ?t = "u ''chest pain, thanks''"
  let ?w = "one_session_world (u ''a'') (sample_session (u ''en'') 900)"
  have n: "py_strip (str_lower ?e ?t) = u ''chest pain, thanks''"
    by (simp add: sample_env_def ascii_lower_def py_strip_def py_isspace_def u_def)
  have "u ''chest pain, thanks'' = [] @ u ''chest pain'' @ u '', thanks''"
    and "u ''chest pain, thanks'' = u ''chest pain, '' @ u ''thanks'' @ []"
    by (simp_all add: u_def)
  moreover have "u ''chest pain'' \<in> set EMERGENCY_WORDS" and "u ''thanks'' \<in> set EXIT_WORDS"
    by (simp_all add: EMERGENCY_WORDS_def EXIT_WORDS_def)
  ultimately have em: "any_in EMERGENCY_WORDS (py_strip (str_lower ?e ?t))"
    and ex: "any_in EXIT_WORDS (py_strip (str_lower ?e ?t))"
    unfolding n any_in_iff by blast+
  obtain first l w2 where r: "resolve_session ?e (u ''a'') ?t ?w = (first, l, w2)"
    by (cases "resolve_session ?e (u ''a'') ?t ?w")
  note b = build_exit [OF ex r, of False]
  have "logged w2 = []"
    using resolve_session_frame(2) [OF r] by (simp add: one_session_world_def empty_world_def)
  moreover have "exit_reply \<noteq> [0x26A0, 0xFE0F] @ u '' **EMERGENCY!** This may be a life-threatening situation. Please call an ambulance immediately: **108** or go to the nearest health center.''"
    by (simp add: exit_reply_def u_def)
  ultimately show ?thesis using em by (simp add: b)
qed

section \<open>Sessions across messages\<close>

text \<open>
  \<^verbatim>\<open>ask_llm\<close> changes the history of the stored session and nothing else of it.
\<close>

lemma ask_llm_body_keeps_session:
  "user_sessions w uid = Some s \<Longrightarrow>
     \<exists>h. user_sessions (snd (ask_llm_body e uid q l w)) uid = Some (s\<lparr>history := h\<rparr>)"
proof (cases "gemini_client_set e")
  case False
  assume "user_sessions w uid = Some s"
  then have "user_sessions (snd (ask_llm_body e uid q l w)) uid = Some (s\<lparr>history := history s\<rparr>)"
    using False by (simp add: ask_llm_body_def)
  then show ?thesis by blast
next
  case True
  assume s: "user_sessions w uid = Some s"
  show ?thesis
  proof (cases "\<exists>t. generate_content e (gemini_calls w) = GenText (Some t) \<and> py_strip t \<noteq> []")
    case True
    then obtain t where "generate_content e (gemini_calls w) = GenText (Some t)" "py_strip t \<noteq> []"
      by blast
    from ask_llm_body_reply [OF \<open>gemini_client_set e\<close> s this, of q l] show ?thesis
      by (intro exI [of _ "history s @ [(User, q), (Model, py_strip t)]"]) simp
  next
    case False
    then have "\<forall>t. generate_content e (gemini_calls w) = GenText (Some t) \<longrightarrow> py_strip t = []"
      by blast
    from ask_llm_body_failed_history [OF \<open>gemini_client_set e\<close> s this, of q l] show ?thesis
      by blast
  qed
qed

lemma on_exception_keeps_session:
  "user_sessions w uid = Some s \<Longrightarrow>
     \<exists>h. user_sessions (snd (on_exception left n (ask_llm_body e uid q l) w)) uid =
         Some (s\<lparr>history := h\<rparr>)"
proof (induction left arbitrary: n w s)
  case 0
  then show ?case by (simp add: ask_llm_body_keeps_session)
next
  case (Suc left)
  obtain r w' where b: "ask_llm_body e uid q l w = (r, w')"
    by (cases "ask_llm_body e uid q l w")
  from ask_llm_body_keeps_session [OF Suc.prems, of e q l] b
  obtain h where h: "user_sessions w' uid = Some (s\<lparr>history := h\<rparr>)" by auto
  show ?case
  proof (cases r)
    case (Inr ret)
    with b h show ?thesis by auto
  next
    case (Inl x)
    show ?thesis
    proof (cases "x = APIError \<or> x = RequestException")
      case False
      with b h Inl show ?thesis by auto
    next
      case True
      let ?w = "w'\<lparr>sleeps := sleeps w' @ [1 * 2 ^ n]\<rparr>"
      from h have "user_sessions ?w uid = Some (s\<lparr>history := h\<rparr>)" by simp
      from Suc.IH [OF this, of "Suc n"]
      obtain h' where "user_sessions (snd (on_exception left (Suc n) (ask_llm_body e uid q l) ?w)) uid =
         Some (s\<lparr>history := h'\<rparr>)" by auto
      moreover have "on_exception (Suc left) n (ask_llm_body e uid q l) w =
          on_exception left (Suc n) (ask_llm_body e uid q l) ?w"
        using b Inl True by auto
      ultimately show ?thesis by auto
    qed
  qed
qed

lemma ask_llm_keeps_session:
  "user_sessions w uid = Some s \<Longrightarrow>
     \<exists>h. user_sessions (snd (ask_llm e uid q l w)) uid = Some (s\<lparr>history := h\<rparr>)"
  by (simp add: ask_llm_def on_exception_keeps_session)

lemma resolve_session_fresh:
  assumes "\<not> (\<exists>s. user_sessions w uid = Some s \<and>
             time_time e (clock_reads w) - last_seen s \<le> SESSION_TIMEOUT)"
    and "resolve_session e uid text w = (first, l, w2)"
  shows "first" and "l = detect_language e text"
    and "\<exists>t. user_sessions w2 uid =
           Some \<lparr>lang = Some l, msg_count = 1, last_seen = t, history = []\<rparr>"
  using assms
  by (auto simp: resolve_session_def get_user_state_def fresh_session_def Let_def
        split: option.splits if_splits)

lemma resolve_session_live:
  assumes "user_sessions w uid = Some s"
    and "time_time e (clock_reads w) - last_seen s \<le> SESSION_TIMEOUT"
    and "resolve_session e uid text w = (first, l, w2)"
  shows "first \<longleftrightarrow> msg_count s = 0" and "lang s = Some l0 \<Longrightarrow> l = l0"
  using assms
  by (auto simp: resolve_session_def get_user_state_def Let_def split: option.splits)

text \<open>
  Claim C6, as the code has it. A user id without a live session sends a text message
  that is neither an exit nor an emergency: when the model turn returns, the reply is the
  welcome banner of the detected language, then the model turn's text, then the referral
  block; when the model turn raises, the reply is the fallback message alone. For a
  second such message that finds the session live, the language is the same, no banner
  is put in front: the reply is the model turn's text followed by the referral block, or
  the fallback message alone.
\<close>

theorem welcome_banner_first_message_only:
  assumes nolive: "\<not> (\<exists>s. user_sessions w uid = Some s \<and>
             time_time e (clock_reads w) - last_seen s \<le> SESSION_TIMEOUT)"
    and t1: "\<not> any_in EXIT_WORDS (py_strip (str_lower e text1))"
            "\<not> any_in EMERGENCY_WORDS (py_strip (str_lower e text1))"
    and r1: "resolve_session e uid text1 w = (first1, l1, w2)"
    and b1: "build_conversation_response e uid text1 False w = (reply1, w')"
    and t2: "\<not> any_in EXIT_WORDS (py_strip (str_lower e' text2))"
            "\<not> any_in EMERGENCY_WORDS (py_strip (str_lower e' text2))"
    and live2: "\<forall>s. user_sessions w' uid = Some s \<longrightarrow>
             time_time e' (clock_reads w') - last_seen s \<le> SESSION_TIMEOUT"
    and r2: "resolve_session e' uid text2 w' = (first2, l2, w2')"
  shows "l1 = detect_language e text1 \<and>
         (\<forall>r w3. ask_llm e uid text1 l1 w2 = (Inr r, w3) \<longrightarrow>
            reply1 = Inr (welcome_banner l1 @ r @ referral_block l1)) \<and>
         (\<forall>x w3. ask_llm e uid text1 l1 w2 = (Inl x, w3) \<longrightarrow>
            reply1 = Inr (fallback_message l1)) \<and>
         l2 = l1 \<and>
         (\<forall>r w3. ask_llm e' uid text2 l2 w2' = (Inr r, w3) \<longrightarrow>
            fst (build_conversation_response e' uid text2 False w') = Inr (r @ referral_block l2)) \<and>
         (\<forall>x w3. ask_llm e' uid text2 l2 w2' = (Inl x, w3) \<longrightarrow>
            fst (build_conversation_response e' uid text2 False w') = Inr (fallback_message l2))"
proof -
  note fr = resolve_session_fresh [OF nolive r1]
  note m1 = build_model_turn [OF t1 r1, of False]
  from fr(3) obtain t where s2: "user_sessions w2 uid =
      Some \<lparr>lang = Some l1, msg_count = 1, last_seen = t, history = []\<rparr>" by blast
  from m1 b1 have w': "w' = snd (ask_llm e uid text1 l1 w2)"
    by (auto split: prod.splits sum.splits)
  from ask_llm_keeps_session [OF s2, of e text1 l1] w'
  obtain h where s': "user_sessions w' uid =
      Some \<lparr>lang = Some l1, msg_count = 1, last_seen = t, history = h\<rparr>" by auto
  from live2 s' have lv: "time_time e' (clock_reads w') -
      last_seen \<lparr>lang = Some l1, msg_count = 1, last_seen = t, history = h\<rparr> \<le> SESSION_TIMEOUT"
    by blast
  from resolve_session_live [OF s' lv r2] have nf: "\<not> first2" and l2: "l2 = l1"
    by simp_all
  note m2 = build_model_turn [OF t2 r2, of False]
  have "(\<forall>r w3. ask_llm e uid text1 l1 w2 = (Inr r, w3) \<longrightarrow>
            reply1 = Inr (welcome_banner l1 @ r @ referral_block l1))"
    using m1 b1 fr(1) by auto
  moreover have "(\<forall>x w3. ask_llm e uid text1 l1 w2 = (Inl x, w3) \<longrightarrow>
            reply1 = Inr (fallback_message l1))"
    using m1 b1 by auto
  moreover have "(\<forall>r w3. ask_llm e' uid text2 l2 w2' = (Inr r, w3) \<longrightarrow>
            fst (build_conversation_response e' uid text2 False w') = Inr (r @ referral_block l2))"
    using m2 nf by auto
  moreover have "(\<forall>x w3. ask_llm e' uid text2 l2 w2' = (Inl x, w3) \<longrightarrow>
            fst (build_conversation_response e' uid text2 False w') = Inr (fallback_message l2))"
    using m2 by auto
  ultimately show ?thesis using fr(2) l2 by blast
qed

lemma rest_strip: "py_strip (u '' Rest. '') = u ''Rest.''"
  by (simp add: py_strip_def py_isspace_def u_def)

theorem welcome_banner_first_message_only_witness:
  "\<not> (\<exists>s. user_sessions empty_world (u ''a'') = Some s \<and>
        time_time (sample_env (Some (u ''en'')) (always_text (u '' Rest. ''))) (clock_reads empty_world)
          - last_seen s \<le> SESSION_TIMEOUT) \<and>
   \<not> any_in EXIT_WORDS
       (py_strip (str_lower (sample_env (Some (u ''en'')) (always_text (u '' Rest. ''))) (u ''Fever''))) \<and>
   \<not> any_in EMERGENCY_WORDS
       (py_strip (str_lower (sample_env (Some (u ''en'')) (always_text (u '' Rest. ''))) (u ''Fever''))) \<and>
   fst (build_conversation_response (sample_env (Some (u ''en'')) (always_text (u '' Rest. ''))) (u ''a'')
          (u ''Fever'') False empty_world) =
     Inr (welcome_banner (u ''en'') @ u ''Rest.'' @ referral_block (u ''en'')) \<and>
   (\<exists>s. user_sessions (snd (build_conversation_response
              (sample_env (Some (u ''en'')) (always_text (u '' Rest. ''))) (u ''a'')
              (u ''Fever'') False empty_world)) (u ''a'') = Some s \<and>
        time_time (sample_env (Some (u ''hi'')) (always_text (u '' Rest. '')))
          (clock_reads (snd (build_conversation_response
              (sample_env (Some (u ''en'')) (always_text (u '' Rest. ''))) (u ''a'')
              (u ''Fever'') False empty_world))) - last_seen s \<le> SESSION_TIMEOUT) \<and>
   fst (build_conversation_response (sample_env (Some (u ''hi'')) (always_text (u '' Rest. ''))) (u ''a'')
          (u ''Fever'') False
          (snd (build_conversation_response (sample_env (Some (u ''en'')) (always_text (u '' Rest. '')))
                  (u ''a'') (u ''Fever'') False empty_world))) =
     Inr (u ''Rest.'' @ referral_block (u ''en''))"
proof -
  let ?g = "always_text (u '' Rest. '')"
  let ?e = "sample_env (Some (u ''en'')) ?g"
  let ?e' = "sample_env (Some (u ''hi'')) ?g"
  let ?q = "u ''Fever''"
  let ?s2 = "\<lparr>lang = Some (u ''en''), msg_count = 1, last_seen = 1000, history = []\<rparr>"
  let ?w2 = "empty_world\<lparr>clock_reads := 1, user_sessions := [u ''a'' \<mapsto> ?s2]\<rparr>"
  let ?b1 = "build_conversation_response ?e (u ''a'') ?q False empty_world"
  have nolive: "\<not> (\<exists>s. user_sessions empty_world (u ''a'') = Some s \<and>
        time_time ?e (clock_reads empty_world) - last_seen s \<le> SESSION_TIMEOUT)"
    by (simp add: empty_world_def)
  have c: "gemini_client_set ?e" and c': "gemini_client_set ?e'"
    by (simp_all add: sample_env_def)
  have s2: "user_sessions ?w2 (u ''a'') = Some ?s2" by simp
  have g: "generate_content ?e (gemini_calls ?w2 + 0) = GenText (Some (u '' Rest. ''))"
    by (simp add: sample_env_def always_text_def)
  have ne: "py_strip (u '' Rest. '') \<noteq> []"
    by (simp add: rest_strip) (simp add: u_def)
  have a1: "ask_llm ?e (u ''a'') ?q (u ''en'') ?w2 =
     (Inr (u ''Rest.''),
      ?w2\<lparr>user_sessions := (user_sessions ?w2)
           (u ''a'' \<mapsto> ?s2\<lparr>history := history ?s2 @ replicate (Suc 0) (User, ?q) @ [(Model, u ''Rest.'')]\<rparr>),
        gemini_calls := gemini_calls ?w2 + 0 + 1,
        logged := logged ?w2 @ replicate 0 ERROR,
        sleeps := sleeps ?w2 @ map (\<lambda>i. 2 ^ i) [0..<0]\<rparr>)"
    using ask_llm_reply_after_failures [OF c s2 _ _ g ne, of ?q "u ''en''"]
    by (simp add: max_tries_def rest_strip)
  note r1 = fever_first_resolve [of ?g]
  have b1: "?b1 = (fst ?b1, snd ?b1)" by simp
  have m1: "?b1 =
     (case ask_llm ?e (u ''a'') ?q (u ''en'') ?w2 of
        (Inr llm_reply, w3) \<Rightarrow>
          (Inr ((if True \<and> \<not> False then welcome_banner (u ''en'') else []) @ llm_reply @
                referral_block (u ''en'')), w3)
      | (Inl x, w3) \<Rightarrow> (Inr (fallback_message (u ''en'')), w3))"
    by (rule build_model_turn [OF fever_no_exit fever_no_emergency r1])
  have b1v: "?b1 = (Inr (welcome_banner (u ''en'') @ u ''Rest.'' @ referral_block (u ''en'')),
      snd (ask_llm ?e (u ''a'') ?q (u ''en'') ?w2))"
    unfolding m1 a1 by simp
  have live2: "\<forall>s. user_sessions (snd ?b1) (u ''a'') = Some s \<longrightarrow>
        time_time ?e' (clock_reads (snd ?b1)) - last_seen s \<le> SESSION_TIMEOUT"
    by (simp only: b1v snd_conv a1) (simp add: sample_env_def SESSION_TIMEOUT_def empty_world_def)
  have live2': "\<exists>s. user_sessions (snd ?b1) (u ''a'') = Some s \<and>
        time_time ?e' (clock_reads (snd ?b1)) - last_seen s \<le> SESSION_TIMEOUT"
    by (simp only: b1v snd_conv a1) (simp add: sample_env_def SESSION_TIMEOUT_def empty_world_def)
  obtain first2 l2 w2' where r2: "resolve_session ?e' (u ''a'') ?q (snd ?b1) = (first2, l2, w2')"
    by (cases "resolve_session ?e' (u ''a'') ?q (snd ?b1)")
  note T = welcome_banner_first_message_only [OF nolive fever_no_exit fever_no_emergency r1 b1
      fever_no_exit fever_no_emergency live2 r2]
  from T have l2: "l2 = u ''en''" by blast
  from resolve_session_frame(5) [OF r2] obtain s3 where s3: "user_sessions w2' (u ''a'') = Some s3"
    by blast
  have g2: "generate_content ?e' (gemini_calls w2' + 0) = GenText (Some (u '' Rest. ''))"
    by (simp add: sample_env_def always_text_def)
  from ask_llm_reply_after_failures [OF c' s3 _ _ g2 ne, of ?q l2]
  obtain w3 where a2: "ask_llm ?e' (u ''a'') ?q l2 w2' = (Inr (u ''Rest.''), w3)"
    by (simp add: max_tries_def rest_strip)
  from T a2 have "fst (build_conversation_response ?e' (u ''a'') ?q False (snd ?b1)) =
      Inr (u ''Rest.'' @ referral_block l2)"
    by blast
  with nolive live2' fever_no_exit [of "Some (u ''en'')" ?g]
    fever_no_emergency [of "Some (u ''en'')" ?g] b1v l2
  show ?thesis by simp
qed

text \<open>
  The claim as stated fails: when all three model calls of a first message raise
  \<^verbatim>\<open>APIError\<close>, the reply is the fallback message, which does not begin with the
  banner.
\<close>

theorem first_message_without_banner_counterexample:
  "user_sessions empty_world (u ''a'') = None \<and>
   \<not> any_in EXIT_WORDS
       (py_strip (str_lower (sample_env (Some (u ''en'')) always_api_error) (u ''Fever''))) \<and>
   \<not> any_in EMERGENCY_WORDS
       (py_strip (str_lower (sample_env (Some (u ''en'')) always_api_error) (u ''Fever''))) \<and>
   fst (build_conversation_response (sample_env (Some (u ''en'')) always_api_error) (u ''a'')
          (u ''Fever'') False empty_world) = Inr (fallback_message (u ''en'')) \<and>
   \<not> prefix (welcome_banner (u ''en'')) (fallback_message (u ''en''))"
proof -
  let ?e = "sample_env (Some (u ''en'')) always_api_error"
  let ?s2 = "\<lparr>lang = Some (u ''en''), msg_count = 1, last_seen = 1000, history = []\<rparr>"
  let ?w2 = "empty_world\<lparr>clock_reads := 1, user_sessions := [u ''a'' \<mapsto> ?s2]\<rparr>"
  have c: "gemini_client_set ?e" by (simp add: sample_env_def)
  have s: "user_sessions ?w2 (u ''a'') = Some ?s2" by simp
  have f: "\<forall>i<max_tries. generate_content ?e (gemini_calls ?w2 + i) = GenRaise APIError"
    by (simp add: sample_env_def always_api_error_def)
  note a = ask_llm_exhausted [OF c s f, of "u ''Fever''" "u ''en''"]
  have "build_conversation_response ?e (u ''a'') (u ''Fever'') False empty_world =
     (case ask_llm ?e (u ''a'') (u ''Fever'') (u ''en'') ?w2 of
        (Inr llm_reply, w3) \<Rightarrow>
          (Inr ((if True \<and> \<not> False then welcome_banner (u ''en'') else []) @ llm_reply @
                referral_block (u ''en'')), w3)
      | (Inl x, w3) \<Rightarrow> (Inr (fallback_message (u ''en'')), w3))"
    by (rule build_model_turn [OF fever_no_exit fever_no_emergency fever_first_resolve])
  then have "fst (build_conversation_response ?e (u ''a'') (u ''Fever'') False empty_world) =
      Inr (fallback_message (u ''en''))"
    unfolding a by simp
  moreover have "\<not> prefix (welcome_banner (u ''en'')) (fallback_message (u ''en''))"
    by (simp add: welcome_banner_def fallback_message_def dict_get_def welcome_text_def
          fallback_table_def u_def)
  moreover have "user_sessions empty_world (u ''a'') = None"
    by (simp add: empty_world_def)
  ultimately show ?thesis using fever_no_exit fever_no_emergency by simp
qed

section \<open>The session language\<close>

text \<open>
  Whatever branch \<^verbatim>\<open>build_conversation_response\<close> takes, the session of the user is
  afterwards either removed or carries the language that resolving the session gave.
\<close>

lemma resolve_session_lang_cases:
  "resolve_session e uid text w = (first, l, w2) \<Longrightarrow>
     l = detect_language e text \<or> (\<exists>s. user_sessions w uid = Some s \<and> lang s = Some l)"
  by (auto simp: resolve_session_def get_user_state_def fresh_session_def Let_def
        split: option.splits if_splits)

lemma transcribe_frame:
  "transcribe_audio_gemini e url w = (r, w') \<Longrightarrow>
     user_sessions w' = user_sessions w \<and> clock_reads w' = clock_reads w"
  by (auto simp: transcribe_audio_gemini_def Let_def split: if_splits sum.splits gen_outcome.splits option.splits)

lemma transcribe_result:
  "gemini_calls w1 = gemini_calls w \<Longrightarrow>
     fst (transcribe_audio_gemini e url w1) = fst (transcribe_audio_gemini e url w)"
  by (auto simp: transcribe_audio_gemini_def Let_def split: if_splits sum.splits gen_outcome.splits option.splits)

lemma webhook_no_voice:
  "\<not> (0 < num_media req \<and> (\<exists>url. media_url req = Some url \<and> url \<noteq> [])) \<Longrightarrow>
     whatsapp_webhook e req w =
       process_text e (from_number req) (incoming_msg_body req) False (w\<lparr>logged := logged w @ [INFO]\<rparr>)"
  by (auto simp: whatsapp_webhook_def Let_def split: option.splits)

lemma webhook_voice:
  assumes "media_url req = Some url" and "url \<noteq> []" and "0 < num_media req"
    and "get_user_state e (from_number req) (w\<lparr>logged := logged w @ [INFO]\<rparr>) = (user_state, w1)"
    and "transcribe_audio_gemini e url w1 = (r, w2)"
  shows "whatsapp_webhook e req w =
     (case r of
        Inl x \<Rightarrow>
          (Inr (case lang user_state of
                  None \<Rightarrow> u ''Sorry, please try again later.''
                | Some user_lang \<Rightarrow> fallback_message user_lang),
           w2\<lparr>logged := logged w2 @ [ERROR]\<rparr>)
      | Inr txt \<Rightarrow>
          process_text e (from_number req) txt True
            (case lang user_state of
               None \<Rightarrow>
                 w2\<lparr>logged := logged w2 @ [INFO],
                    user_sessions := (user_sessions w2)
                      (from_number req \<mapsto> user_state\<lparr>lang := Some (detect_language e txt)\<rparr>)\<rparr>
             | Some _ \<Rightarrow> w2\<lparr>logged := logged w2 @ [INFO]\<rparr>))"
  using assms by (simp add: whatsapp_webhook_def Let_def split: sum.splits option.splits)

lemma build_lang_exact:
  assumes r: "resolve_session e uid txt w = (first, l, w2)"
  shows "if any_in EXIT_WORDS (py_strip (str_lower e txt)) \<or>
            any_in EMERGENCY_WORDS (py_strip (str_lower e txt))
         then user_sessions (snd (build_conversation_response e uid txt is_audio w)) uid = None
         else \<exists>s'. user_sessions (snd (build_conversation_response e uid txt is_audio w)) uid = Some s' \<and>
                   lang s' = Some l"
proof (cases "any_in EXIT_WORDS (py_strip (str_lower e txt))")
  case True
  from build_exit [OF True r, of is_audio] True show ?thesis by simp
next
  case False
  note nex = this
  show ?thesis
  proof (cases "any_in EMERGENCY_WORDS (py_strip (str_lower e txt))")
    case True
    from build_emergency [OF nex True r emergency_en, of is_audio] True show ?thesis by simp
  next
    case False
    from resolve_session_frame(5) [OF r] obtain s2
      where st: "user_sessions w2 uid = Some s2" and l: "lang s2 = Some l" by blast
    from ask_llm_keeps_session [OF st, of e "txt" l]
    obtain h where "user_sessions (snd (ask_llm e uid txt l w2)) uid = Some (s2\<lparr>history := h\<rparr>)"
      by blast
    moreover have "snd (build_conversation_response e uid txt is_audio w) =
        snd (ask_llm e uid txt l w2)"
      using build_model_turn [OF nex False r, of is_audio]
      by (auto split: prod.splits sum.splits)
    ultimately show ?thesis using l nex False by simp
  qed
qed

lemma process_text_lang_exact:
  assumes "user_sessions w uid = Some s" and "lang s = Some l0"
    and "time_time e (clock_reads w) - last_seen s \<le> SESSION_TIMEOUT \<or> l0 = detect_language e txt"
  shows "if py_strip txt \<noteq> [] \<and>
            (any_in EXIT_WORDS (py_strip (str_lower e txt)) \<or>
             any_in EMERGENCY_WORDS (py_strip (str_lower e txt)))
         then user_sessions (snd (process_text e uid txt is_audio w)) uid = None
         else \<exists>s'. user_sessions (snd (process_text e uid txt is_audio w)) uid = Some s' \<and>
                   lang s' = Some l0"
proof (cases "py_strip txt = []")
  case True
  with assms(1,2) show ?thesis by (simp add: process_text_def)
next
  case False
  obtain first l w2 where r: "resolve_session e uid txt w = (first, l, w2)"
    by (cases "resolve_session e uid txt w")
  have "l = l0"
    using assms(3)
  proof
    assume "time_time e (clock_reads w) - last_seen s \<le> SESSION_TIMEOUT"
    from resolve_session_live(2) [OF assms(1) this r assms(2)] show ?thesis .
  next
    assume "l0 = detect_language e txt"
    with resolve_session_lang_cases [OF r] assms(1,2) show ?thesis by auto
  qed
  with build_lang_exact [OF r, of is_audio] False show ?thesis
    by (auto simp: process_text_def split: if_splits)
qed

lemma process_text_new_lang_exact:
  assumes "\<not> (\<exists>s. user_sessions w uid = Some s \<and>
             time_time e (clock_reads w) - last_seen s \<le> SESSION_TIMEOUT)"
    and "py_strip txt \<noteq> []"
  shows "if any_in EXIT_WORDS (py_strip (str_lower e txt)) \<or>
            any_in EMERGENCY_WORDS (py_strip (str_lower e txt))
         then user_sessions (snd (process_text e uid txt is_audio w)) uid = None
         else \<exists>s'. user_sessions (snd (process_text e uid txt is_audio w)) uid = Some s' \<and>
                   lang s' = Some (detect_language e txt)"
proof -
  obtain first l w2 where r: "resolve_session e uid txt w = (first, l, w2)"
    by (cases "resolve_session e uid txt w")
  from resolve_session_fresh(2) [OF assms(1) r] build_lang_exact [OF r, of is_audio] assms(2)
  show ?thesis by (auto simp: process_text_def split: if_splits)
qed


text \<open>
  Claim C5. One request handled by \<^verbatim>\<open>whatsapp_webhook\<close>, text or voice, with the
  outcome for the session of the user stated exactly. The session is removed when the
  text that reaches \<^verbatim>\<open>build_conversation_response\<close> (the body, or the transcription
  of a voice message) is not blank and contains an exit or an emergency phrase, and only
  then. In every other case a session is stored afterwards, and its language is
  \<^item> the language the session had, when the user has a session with a language that is
    live at each lookup of the request (a voice message looks the session up a second
    time after the transcription; this also covers a failed transcription), whatever the
    text is and whatever the detector answers;
  \<^item> the language detected from the body, when the user has no live session and sends a
    non-blank text message;
  \<^item> the language detected from the transcription, when the user has no live session and
    sends a voice message that is transcribed.
\<close>

theorem session_language_set_once:
  assumes uid: "from_number req = uid"
  shows
   "(user_sessions w uid = Some s \<and> lang s = Some l0 \<and>
       time_time e (clock_reads w) - last_seen s \<le> SESSION_TIMEOUT \<and>
       \<not> (0 < num_media req \<and> (\<exists>url'. media_url req = Some url' \<and> url' \<noteq> [])) \<longrightarrow>
       (if py_strip (incoming_msg_body req) \<noteq> [] \<and>
           (any_in EXIT_WORDS (py_strip (str_lower e (incoming_msg_body req))) \<or>
            any_in EMERGENCY_WORDS (py_strip (str_lower e (incoming_msg_body req))))
        then user_sessions (snd (whatsapp_webhook e req w)) uid = None
        else \<exists>s'. user_sessions (snd (whatsapp_webhook e req w)) uid = Some s' \<and>
                  lang s' = Some l0)) \<and>
    (user_sessions w uid = Some s \<and> lang s = Some l0 \<and>
       time_time e (clock_reads w) - last_seen s \<le> SESSION_TIMEOUT \<and>
       time_time e (clock_reads w + 2) - time_time e (clock_reads w + 1) \<le> SESSION_TIMEOUT \<and>
       media_url req = Some url \<and> url \<noteq> [] \<and> 0 < num_media req \<longrightarrow>
       (case fst (transcribe_audio_gemini e url w) of
          Inl x \<Rightarrow>
            \<exists>s'. user_sessions (snd (whatsapp_webhook e req w)) uid = Some s' \<and> lang s' = Some l0
        | Inr txt \<Rightarrow>
            if py_strip txt \<noteq> [] \<and>
               (any_in EXIT_WORDS (py_strip (str_lower e txt)) \<or>
                any_in EMERGENCY_WORDS (py_strip (str_lower e txt)))
            then user_sessions (snd (whatsapp_webhook e req w)) uid = None
            else \<exists>s'. user_sessions (snd (whatsapp_webhook e req w)) uid = Some s' \<and>
                      lang s' = Some l0)) \<and>
    (\<not> (\<exists>s0. user_sessions w uid = Some s0 \<and>
            time_time e (clock_reads w) - last_seen s0 \<le> SESSION_TIMEOUT) \<and>
       \<not> (0 < num_media req \<and> (\<exists>url'. media_url req = Some url' \<and> url' \<noteq> [])) \<and>
       py_strip (incoming_msg_body req) \<noteq> [] \<longrightarrow>
       (if any_in EXIT_WORDS (py_strip (str_lower e (incoming_msg_body req))) \<or>
           any_in EMERGENCY_WORDS (py_strip (str_lower e (incoming_msg_body req)))
        then user_sessions (snd (whatsapp_webhook e req w)) uid = None
        else \<exists>s'. user_sessions (snd (whatsapp_webhook e req w)) uid = Some s' \<and>
                  lang s' = Some (detect_language e (incoming_msg_body req)))) \<and>
    (\<not> (\<exists>s0. user_sessions w uid = Some s0 \<and>
            time_time e (clock_reads w) - last_seen s0 \<le> SESSION_TIMEOUT) \<and>
       media_url req = Some url \<and> url \<noteq> [] \<and> 0 < num_media req \<and>
       fst (transcribe_audio_gemini e url w) = Inr tx \<longrightarrow>
       (if py_strip tx \<noteq> [] \<and>
           (any_in EXIT_WORDS (py_strip (str_lower e tx)) \<or>
            any_in EMERGENCY_WORDS (py_strip (str_lower e tx)))
        then user_sessions (snd (whatsapp_webhook e req w)) uid = None
        else \<exists>s'. user_sessions (snd (whatsapp_webhook e req w)) uid = Some s' \<and>
                  lang s' = Some (detect_language e tx)))"
proof (intro conjI impI)
  let ?w0 = "w\<lparr>logged := logged w @ [INFO]\<rparr>"
  assume h: "user_sessions w uid = Some s \<and> lang s = Some l0 \<and>
       time_time e (clock_reads w) - last_seen s \<le> SESSION_TIMEOUT \<and>
       \<not> (0 < num_media req \<and> (\<exists>url'. media_url req = Some url' \<and> url' \<noteq> []))"
  then have nv: "\<not> (0 < num_media req \<and> (\<exists>url'. media_url req = Some url' \<and> url' \<noteq> []))"
    by blast
  have a: "user_sessions ?w0 uid = Some s" using h by simp
  have b: "lang s = Some l0" using h by simp
  have c: "time_time e (clock_reads ?w0) - last_seen s \<le> SESSION_TIMEOUT \<or>
        l0 = detect_language e (incoming_msg_body req)"
    using h by simp
  show "if py_strip (incoming_msg_body req) \<noteq> [] \<and>
           (any_in EXIT_WORDS (py_strip (str_lower e (incoming_msg_body req))) \<or>
            any_in EMERGENCY_WORDS (py_strip (str_lower e (incoming_msg_body req))))
        then user_sessions (snd (whatsapp_webhook e req w)) uid = None
        else \<exists>s'. user_sessions (snd (whatsapp_webhook e req w)) uid = Some s' \<and>
                  lang s' = Some l0"
    unfolding webhook_no_voice [OF nv] uid by (rule process_text_lang_exact [OF a b c])
next
  let ?w0 = "w\<lparr>logged := logged w @ [INFO]\<rparr>"
  assume h: "user_sessions w uid = Some s \<and> lang s = Some l0 \<and>
       time_time e (clock_reads w) - last_seen s \<le> SESSION_TIMEOUT \<and>
       time_time e (clock_reads w + 2) - time_time e (clock_reads w + 1) \<le> SESSION_TIMEOUT \<and>
       media_url req = Some url \<and> url \<noteq> [] \<and> 0 < num_media req"
  then have m: "media_url req = Some url" "url \<noteq> []" "0 < num_media req" by simp_all
  let ?s1 = "s\<lparr>last_seen := time_time e (clock_reads w + 1)\<rparr>"
  let ?w1 = "?w0\<lparr>user_sessions := (user_sessions ?w0)(uid \<mapsto> ?s1),
        clock_reads := clock_reads ?w0 + 2\<rparr>"
  have g: "get_user_state e (from_number req) ?w0 = (?s1, ?w1)"
    using h by (simp add: get_user_state_def Let_def uid)
  obtain r w2 where t: "transcribe_audio_gemini e url ?w1 = (r, w2)"
    by (cases "transcribe_audio_gemini e url ?w1")
  from transcribe_frame [OF t] have f: "user_sessions w2 = user_sessions ?w1"
    "clock_reads w2 = clock_reads ?w1" by simp_all
  have "gemini_calls ?w1 = gemini_calls w" by simp
  from transcribe_result [OF this, of e url] t
  have fr: "fst (transcribe_audio_gemini e url w) = r" by simp
  note wv = webhook_voice [OF m g t]
  show "case fst (transcribe_audio_gemini e url w) of
          Inl x \<Rightarrow>
            \<exists>s'. user_sessions (snd (whatsapp_webhook e req w)) uid = Some s' \<and> lang s' = Some l0
        | Inr txt \<Rightarrow>
            if py_strip txt \<noteq> [] \<and>
               (any_in EXIT_WORDS (py_strip (str_lower e txt)) \<or>
                any_in EMERGENCY_WORDS (py_strip (str_lower e txt)))
            then user_sessions (snd (whatsapp_webhook e req w)) uid = None
            else \<exists>s'. user_sessions (snd (whatsapp_webhook e req w)) uid = Some s' \<and>
                      lang s' = Some l0"
  proof (cases r)
    case (Inl x)
    with wv f h show ?thesis by (simp add: fr)
  next
    case (Inr t')
    let ?w3 = "w2\<lparr>logged := logged w2 @ [INFO]\<rparr>"
    have eq: "whatsapp_webhook e req w = process_text e uid t' True ?w3"
      using wv Inr h by (simp add: uid)
    have a: "user_sessions ?w3 uid = Some ?s1" using f by simp
    have b: "lang ?s1 = Some l0" using h by simp
    have c: "time_time e (clock_reads ?w3) - last_seen ?s1 \<le> SESSION_TIMEOUT \<or>
          l0 = detect_language e t'"
      using h f by simp
    from process_text_lang_exact [OF a b c, of True] show ?thesis
      by (simp add: fr Inr eq)
  qed
next
  let ?w0 = "w\<lparr>logged := logged w @ [INFO]\<rparr>"
  assume h: "\<not> (\<exists>s0. user_sessions w uid = Some s0 \<and>
            time_time e (clock_reads w) - last_seen s0 \<le> SESSION_TIMEOUT) \<and>
       \<not> (0 < num_media req \<and> (\<exists>url'. media_url req = Some url' \<and> url' \<noteq> [])) \<and>
       py_strip (incoming_msg_body req) \<noteq> []"
  then have nv: "\<not> (0 < num_media req \<and> (\<exists>url'. media_url req = Some url' \<and> url' \<noteq> []))"
    and ne: "py_strip (incoming_msg_body req) \<noteq> []"
    by blast+
  from h have nl: "\<not> (\<exists>s0. user_sessions ?w0 uid = Some s0 \<and>
            time_time e (clock_reads ?w0) - last_seen s0 \<le> SESSION_TIMEOUT)"
    by simp
  show "if any_in EXIT_WORDS (py_strip (str_lower e (incoming_msg_body req))) \<or>
           any_in EMERGENCY_WORDS (py_strip (str_lower e (incoming_msg_body req)))
        then user_sessions (snd (whatsapp_webhook e req w)) uid = None
        else \<exists>s'. user_sessions (snd (whatsapp_webhook e req w)) uid = Some s' \<and>
                  lang s' = Some (detect_language e (incoming_msg_body req))"
    unfolding webhook_no_voice [OF nv] uid by (rule process_text_new_lang_exact [OF nl ne])
next
  let ?w0 = "w\<lparr>logged := logged w @ [INFO]\<rparr>"
  assume h: "\<not> (\<exists>s0. user_sessions w uid = Some s0 \<and>
            time_time e (clock_reads w) - last_seen s0 \<le> SESSION_TIMEOUT) \<and>
       media_url req = Some url \<and> url \<noteq> [] \<and> 0 < num_media req \<and>
       fst (transcribe_audio_gemini e url w) = Inr tx"
  then have m: "media_url req = Some url" "url \<noteq> []" "0 < num_media req" by simp_all
  obtain user_state w1 where g: "get_user_state e (from_number req) ?w0 = (user_state, w1)"
    by (cases "get_user_state e (from_number req) ?w0")
  have nolive: "\<not> (\<exists>s0. user_sessions ?w0 uid = Some s0 \<and>
            time_time e (clock_reads ?w0) - last_seen s0 \<le> SESSION_TIMEOUT)"
    using h by simp
  have us: "lang user_state = None"
    using g nolive
    by (auto simp: get_user_state_def fresh_session_def uid Let_def split: option.splits if_splits)
  obtain r w2 where t: "transcribe_audio_gemini e url w1 = (r, w2)"
    by (cases "transcribe_audio_gemini e url w1")
  have "gemini_calls w1 = gemini_calls w"
    using get_user_state_frame [OF g] by simp
  from transcribe_result [OF this, of e url] t h have r: "r = Inr tx" by simp
  let ?s4 = "user_state\<lparr>lang := Some (detect_language e tx)\<rparr>"
  let ?w4 = "w2\<lparr>logged := logged w2 @ [INFO],
       user_sessions := (user_sessions w2)(uid \<mapsto> ?s4)\<rparr>"
  have eq: "whatsapp_webhook e req w = process_text e uid tx True ?w4"
    using webhook_voice [OF m g t] r us by (simp add: uid)
  have a: "user_sessions ?w4 uid = Some ?s4" by simp
  have b: "lang ?s4 = Some (detect_language e tx)" by simp
  have c: "time_time e (clock_reads ?w4) - last_seen ?s4 \<le> SESSION_TIMEOUT \<or>
          detect_language e tx = detect_language e tx" by simp
  show "if py_strip tx \<noteq> [] \<and>
           (any_in EXIT_WORDS (py_strip (str_lower e tx)) \<or>
            any_in EMERGENCY_WORDS (py_strip (str_lower e tx)))
        then user_sessions (snd (whatsapp_webhook e req w)) uid = None
        else \<exists>s'. user_sessions (snd (whatsapp_webhook e req w)) uid = Some s' \<and>
                  lang s' = Some (detect_language e tx)"
    unfolding eq by (rule process_text_lang_exact [OF a b c])
qed


theorem session_language_set_once_witness:
  "user_sessions (one_session_world (u ''a'') (sample_session (u ''mr'') 900)) (u ''a'') =
     Some (sample_session (u ''mr'') 900) \<and>
   lang (sample_session (u ''mr'') 900) = Some (u ''mr'') \<and>
   time_time (sample_env (Some (u ''hi'')) (always_text (u '' Fever '')))
       (clock_reads (one_session_world (u ''a'') (sample_session (u ''mr'') 900)))
     - last_seen (sample_session (u ''mr'') 900) \<le> SESSION_TIMEOUT \<and>
   detect_language (sample_env (Some (u ''hi'')) (always_text (u '' Fever ''))) (u ''Fever'') = u ''hi'' \<and>
   (\<exists>s'. user_sessions (snd (whatsapp_webhook (sample_env (Some (u ''hi'')) (always_text (u '' Fever '')))
              \<lparr>from_number = u ''a'', incoming_msg_body = u ''Fever'', media_url = None, num_media = 0\<rparr>
              (one_session_world (u ''a'') (sample_session (u ''mr'') 900)))) (u ''a'') = Some s' \<and>
         lang s' = Some (u ''mr'')) \<and>
   fst (transcribe_audio_gemini (sample_env (Some (u ''hi'')) (always_text (u '' Fever '')))
          (u ''https://x'') (one_session_world (u ''a'') (sample_session (u ''mr'') 900))) =
     Inr (u ''Fever'') \<and>
   (\<exists>s'. user_sessions (snd (whatsapp_webhook (sample_env (Some (u ''hi'')) (always_text (u '' Fever '')))
              \<lparr>from_number = u ''a'', incoming_msg_body = [], media_url = Some (u ''https://x''),
                 num_media = 1\<rparr>
              (one_session_world (u ''a'') (sample_session (u ''mr'') 900)))) (u ''a'') = Some s' \<and>
         lang s' = Some (u ''mr'')) \<and>
   (\<exists>s'. user_sessions (snd (whatsapp_webhook (sample_env (Some (u ''hi'')) (always_text (u '' Fever '')))
              \<lparr>from_number = u ''a'', incoming_msg_body = u ''Fever'', media_url = None, num_media = 0\<rparr>
              empty_world)) (u ''a'') = Some s' \<and>
         lang s' = Some (u ''hi'')) \<and>
   any_in EXIT_WORDS
     (py_strip (str_lower (sample_env (Some (u ''hi'')) (always_text (u '' Fever ''))) (u ''Thanks''))) \<and>
   user_sessions (snd (whatsapp_webhook (sample_env (Some (u ''hi'')) (always_text (u '' Fever '')))
              \<lparr>from_number = u ''a'', incoming_msg_body = u ''Thanks'', media_url = None, num_media = 0\<rparr>
              empty_world)) (u ''a'') = None \<and>
   fst (transcribe_audio_gemini (sample_env (Some (u ''hi'')) (always_text (u '' Fever '')))
          (u ''https://x'') empty_world) = Inr (u ''Fever'') \<and>
   (\<exists>s'. user_sessions (snd (whatsapp_webhook (sample_env (Some (u ''hi'')) (always_text (u '' Fever '')))
              \<lparr>from_number = u ''a'', incoming_msg_body = [], media_url = Some (u ''https://x''),
                 num_media = 1\<rparr>
              empty_world)) (u ''a'') = Some s' \<and>
         lang s' = Some (u ''hi''))"
proof -
  let ?e = "sample_env (Some (u ''hi'')) (always_text (u '' Fever ''))"
  let ?w = "one_session_world (u ''a'') (sample_session (u ''mr'') 900)"
  let ?r1 = "\<lparr>from_number = u ''a'', incoming_msg_body = u ''Fever'', media_url = None, num_media = 0\<rparr>"
  let ?r2 = "\<lparr>from_number = u ''a'', incoming_msg_body = [], media_url = Some (u ''https://x''),
                 num_media = 1\<rparr>"
  let ?r3 = "\<lparr>from_number = u ''a'', incoming_msg_body = u ''Thanks'', media_url = None, num_media = 0\<rparr>"
  have d: "detect_language ?e (u ''Fever'') = u ''hi''"
    by (simp add: detect_language_def sample_env_def SUPPORTED_LANGS_def)
  have ne: "py_strip (u ''Fever'') \<noteq> []" and ne3: "py_strip (u ''Thanks'') \<noteq> []"
    by (simp_all add: py_strip_def py_isspace_def u_def)
  note nx = fever_no_exit [of "Some (u ''hi'')" "always_text (u '' Fever '')"]
  note nm = fever_no_emergency [of "Some (u ''hi'')" "always_text (u '' Fever '')"]
  have n3: "py_strip (str_lower ?e (u ''Thanks'')) = [] @ u ''thanks'' @ []"
    by (simp add: sample_env_def ascii_lower_def py_strip_def py_isspace_def u_def)
  have "u ''thanks'' \<in> set EXIT_WORDS" by (simp add: EXIT_WORDS_def)
  with n3 have ex3: "any_in EXIT_WORDS (py_strip (str_lower ?e (u ''Thanks'')))"
    unfolding any_in_iff by blast
  have live: "user_sessions ?w (u ''a'') = Some (sample_session (u ''mr'') 900)"
      "lang (sample_session (u ''mr'') 900) = Some (u ''mr'')"
      "time_time ?e (clock_reads ?w) - last_seen (sample_session (u ''mr'') 900) \<le> SESSION_TIMEOUT"
      "time_time ?e (clock_reads ?w + 2) - time_time ?e (clock_reads ?w + 1) \<le> SESSION_TIMEOUT"
    by (simp_all add: one_session_world_def empty_world_def sample_session_def sample_env_def
          SESSION_TIMEOUT_def)
  have nolive: "\<not> (\<exists>s0. user_sessions empty_world (u ''a'') = Some s0 \<and>
            time_time ?e (clock_reads empty_world) - last_seen s0 \<le> SESSION_TIMEOUT)"
    by (simp add: empty_world_def)
  have nv1: "\<not> (0 < num_media ?r1 \<and> (\<exists>url'. media_url ?r1 = Some url' \<and> url' \<noteq> []))"
    and nv3: "\<not> (0 < num_media ?r3 \<and> (\<exists>url'. media_url ?r3 = Some url' \<and> url' \<noteq> []))"
    by simp_all
  have m2: "media_url ?r2 = Some (u ''https://x'')" "u ''https://x'' \<noteq> []" "0 < num_media ?r2"
    by (simp_all add: u_def)
  have tr: "fst (transcribe_audio_gemini ?e (u ''https://x'') empty_world) = Inr (u ''Fever'')"
    and trw: "fst (transcribe_audio_gemini ?e (u ''https://x'') ?w) = Inr (u ''Fever'')"
    by (simp_all add: transcribe_audio_gemini_def download_media_as_bytes_def sample_env_def
          always_text_def py_strip_def py_isspace_def u_def Let_def)
  have u1: "from_number ?r1 = u ''a''" and u2: "from_number ?r2 = u ''a''"
    and u3: "from_number ?r3 = u ''a''" by simp_all
  have hA1: "user_sessions ?w (u ''a'') = Some (sample_session (u ''mr'') 900) \<and>
      lang (sample_session (u ''mr'') 900) = Some (u ''mr'') \<and>
      time_time ?e (clock_reads ?w) - last_seen (sample_session (u ''mr'') 900) \<le> SESSION_TIMEOUT \<and>
      \<not> (0 < num_media ?r1 \<and> (\<exists>url'. media_url ?r1 = Some url' \<and> url' \<noteq> []))"
    using live nv1 by blast
  have hA2: "user_sessions ?w (u ''a'') = Some (sample_session (u ''mr'') 900) \<and>
      lang (sample_session (u ''mr'') 900) = Some (u ''mr'') \<and>
      time_time ?e (clock_reads ?w) - last_seen (sample_session (u ''mr'') 900) \<le> SESSION_TIMEOUT \<and>
      time_time ?e (clock_reads ?w + 2) - time_time ?e (clock_reads ?w + 1) \<le> SESSION_TIMEOUT \<and>
      media_url ?r2 = Some (u ''https://x'') \<and> u ''https://x'' \<noteq> [] \<and> 0 < num_media ?r2"
    using live m2 by blast
  have hB: "\<not> (\<exists>s0. user_sessions empty_world (u ''a'') = Some s0 \<and>
            time_time ?e (clock_reads empty_world) - last_seen s0 \<le> SESSION_TIMEOUT) \<and>
       \<not> (0 < num_media ?r1 \<and> (\<exists>url'. media_url ?r1 = Some url' \<and> url' \<noteq> [])) \<and>
       py_strip (incoming_msg_body ?r1) \<noteq> []"
    using nolive nv1 ne by simp
  have hB3: "\<not> (\<exists>s0. user_sessions empty_world (u ''a'') = Some s0 \<and>
            time_time ?e (clock_reads empty_world) - last_seen s0 \<le> SESSION_TIMEOUT) \<and>
       \<not> (0 < num_media ?r3 \<and> (\<exists>url'. media_url ?r3 = Some url' \<and> url' \<noteq> [])) \<and>
       py_strip (incoming_msg_body ?r3) \<noteq> []"
    using nolive nv3 ne3 by simp
  have hC: "\<not> (\<exists>s0. user_sessions empty_world (u ''a'') = Some s0 \<and>
            time_time ?e (clock_reads empty_world) - last_seen s0 \<le> SESSION_TIMEOUT) \<and>
       media_url ?r2 = Some (u ''https://x'') \<and> u ''https://x'' \<noteq> [] \<and> 0 < num_media ?r2 \<and>
       fst (transcribe_audio_gemini ?e (u ''https://x'') empty_world) = Inr (u ''Fever'')"
    using nolive m2 tr by blast
  note A1 = session_language_set_once [OF u1, of ?w "sample_session (u ''mr'') 900" "u ''mr''" ?e,
      THEN conjunct1, THEN mp, OF hA1]
  note A2 = session_language_set_once [OF u2, of ?w "sample_session (u ''mr'') 900" "u ''mr''" ?e
      "u ''https://x''", THEN conjunct2, THEN conjunct1, THEN mp, OF hA2]
  note B = session_language_set_once [OF u1, of empty_world _ _ ?e,
      THEN conjunct2, THEN conjunct2, THEN conjunct1, THEN mp, OF hB]
  note B3 = session_language_set_once [OF u3, of empty_world _ _ ?e,
      THEN conjunct2, THEN conjunct2, THEN conjunct1, THEN mp, OF hB3]
  note C = session_language_set_once [OF u2, of empty_world _ _ ?e "u ''https://x''" "u ''Fever''",
      THEN conjunct2, THEN conjunct2, THEN conjunct2, THEN mp, OF hC]
  have cA1: "\<exists>s'. user_sessions (snd (whatsapp_webhook ?e ?r1 ?w)) (u ''a'') = Some s' \<and>
         lang s' = Some (u ''mr'')"
    using A1 nx nm by simp
  have cA2: "\<exists>s'. user_sessions (snd (whatsapp_webhook ?e ?r2 ?w)) (u ''a'') = Some s' \<and>
         lang s' = Some (u ''mr'')"
    using A2 nx nm by (simp add: trw)
  have cB: "\<exists>s'. user_sessions (snd (whatsapp_webhook ?e ?r1 empty_world)) (u ''a'') = Some s' \<and>
         lang s' = Some (u ''hi'')"
    using B nx nm by (simp add: d)
  have cB3: "user_sessions (snd (whatsapp_webhook ?e ?r3 empty_world)) (u ''a'') = None"
    using B3 ex3 by simp
  have cC: "\<exists>s'. user_sessions (snd (whatsapp_webhook ?e ?r2 empty_world)) (u ''a'') = Some s' \<and>
         lang s' = Some (u ''hi'')"
    using C nx nm by (simp add: d)
  from live(1,2,3) d cA1 trw cA2 cB ex3 cB3 tr cC show ?thesis by blast
qed

end
